theory Spec2Isabelle
  imports Complex_Main
begin

section \<open>JavaScript values\<close>

text \<open>
  The two components under verification, the session gate
  (\<^verbatim>\<open>authorizationChecker\<close> in \<^verbatim>\<open>start-express-app.ts\<close>) and the error interceptor
  (\<^verbatim>\<open>ErrorHandler.error\<close> in \<^verbatim>\<open>error-handler.interceptor.ts\<close>), work on untyped
  JavaScript values: the result of \<^verbatim>\<open>JSON.parse\<close> and a thrown value of type \<^verbatim>\<open>any\<close>.
  Both only read properties, test truthiness and compare with a number, so a value is
  modelled as a finite tree.

  A JavaScript string is a sequence of UTF-16 code units, here a list of naturals. An HTTP
  header value reaches the gate decoded as Latin-1, one code unit below 256 per byte, which
  is exactly an Isabelle \<^typ>\<open>string\<close>; \<open>str\<close> embeds it.
\<close>

type_synonym jsstring = "nat list"

definition str :: "string \<Rightarrow> jsstring" where
  "str s = map of_char s"

text \<open>
  A JavaScript number is an IEEE binary64: a rational that the format represents, a signed
  infinity or NaN. Negative zero is identified with zero: no operation of the two
  components tells them apart (both are falsy and both compare equal).
\<close>

datatype number = Finite rat | NaN | PosInf | NegInf

text \<open>
  An object is the list of its properties as property access sees them (own and inherited
  data properties, one entry per name); an array is the list of its elements.
\<close>

datatype jsvalue =
    JUndefined
  | JNull
  | JBool bool
  | JNumber number
  | JString jsstring
  | JArray "jsvalue list"
  | JObject "(jsstring \<times> jsvalue) list"

text \<open>\<^verbatim>\<open>ToBoolean\<close>: what \<^verbatim>\<open>!x\<close>, \<^verbatim>\<open>x || y\<close> and \<^verbatim>\<open>x && y\<close> test.\<close>

fun truthy :: "jsvalue \<Rightarrow> bool" where
  "truthy JUndefined = False"
| "truthy JNull = False"
| "truthy (JBool b) = b"
| "truthy (JNumber n) = (n \<noteq> Finite 0 \<and> n \<noteq> NaN)"
| "truthy (JString s) = (s \<noteq> [])"
| "truthy (JArray xs) = True"
| "truthy (JObject ps) = True"

text \<open>\<^verbatim>\<open>a || b\<close> on two values already at hand.\<close>

definition js_or :: "jsvalue \<Rightarrow> jsvalue \<Rightarrow> jsvalue" where
  "js_or a b = (if truthy a then a else b)"

text \<open>
  Reading a property \<^verbatim>\<open>v.k\<close>. On \<^verbatim>\<open>undefined\<close> and \<^verbatim>\<open>null\<close> the read throws a
  \<^verbatim>\<open>TypeError\<close>; \<open>nullish\<close> is that test. On every other value it yields the property
  or \<^verbatim>\<open>undefined\<close>. For a primitive or an array the result \<^verbatim>\<open>undefined\<close> is right for
  the names the two components read (\<^verbatim>\<open>userId\<close>, \<^verbatim>\<open>status\<close>, \<^verbatim>\<open>httpCode\<close>, \<^verbatim>\<open>name\<close>,
  \<^verbatim>\<open>message\<close>, \<^verbatim>\<open>context\<close>, \<^verbatim>\<open>errors\<close>): none of them is an index, \<^verbatim>\<open>length\<close> or a
  member of a standard prototype.
\<close>

fun nullish :: "jsvalue \<Rightarrow> bool" where
  "nullish JUndefined = True"
| "nullish JNull = True"
| "nullish v = False"

definition lookup :: "(jsstring \<times> jsvalue) list \<Rightarrow> jsstring \<Rightarrow> jsvalue" where
  "lookup ps k = (case map_of ps k of None \<Rightarrow> JUndefined | Some v \<Rightarrow> v)"

fun get_prop :: "jsvalue \<Rightarrow> jsstring \<Rightarrow> jsvalue" where
  "get_prop (JObject ps) k = lookup ps k"
| "get_prop v k = JUndefined"

text \<open>
  What a call can throw: \<open>N9Error message status\<close> is \<^verbatim>\<open>new N9Error(message, status)\<close>,
  the failure class of the package \<^verbatim>\<open>@neo9/n9-node-utils\<close> that the gate raises;
  \<open>TypeError\<close> is the engine's own, \<open>RangeError\<close> the one Node.js throws for a status
  code it cannot send; \<open>Foreign v\<close> is any other value thrown by a collaborator.
\<close>

datatype exn =
    N9Error jsstring nat
  | TypeError
  | RangeError
  | Foreign jsvalue

definition member :: "jsvalue \<Rightarrow> jsstring \<Rightarrow> exn + jsvalue" where
  "member v k = (if nullish v then Inl TypeError else Inr (get_prop v k))"

section \<open>JSON.parse\<close>

text \<open>
  The gate calls the built-in \<^verbatim>\<open>JSON.parse\<close> on the header value. The model follows the
  JSON grammar as ECMAScript reads it: a lexer for strings, numbers, the three literals and
  the six structural characters, and a parser for values over the tokens.
\<close>

subsection \<open>Numbers\<close>

text \<open>
  A JSON number denotes its exact decimal value, and \<^verbatim>\<open>JSON.parse\<close> yields the binary64
  nearest to it, ties to the even significand, overflowing to an infinity (correctly
  rounded, as the engine of Node.js does at every length of the literal).
  \<open>floor_log2 a\<close> is the exponent \<open>e\<close> with \<open>2 ^ e \<le> a < 2 ^ (e + 1)\<close> of a positive
  rational; a binary64 at exponent \<open>e\<close> is a multiple of \<open>2 ^ (e - 52)\<close>, and of
  \<open>2 ^ (- 1074)\<close> below the normal range.
\<close>

fun bit_length :: "nat \<Rightarrow> nat" where
  "bit_length n = (if n = 0 then 0 else Suc (bit_length (n div 2)))"

declare bit_length.simps [simp del]

definition pow2 :: "int \<Rightarrow> rat" where
  "pow2 e = (if 0 \<le> e then 2 ^ nat e else 1 / 2 ^ nat (- e))"

definition floor_log2 :: "rat \<Rightarrow> int" where
  "floor_log2 a =
     (if 1 \<le> a then int (bit_length (nat \<lfloor>a\<rfloor>)) - 1
      else - int (bit_length (nat (\<lceil>1 / a\<rceil> - 1))))"

definition round_half_even :: "rat \<Rightarrow> int" where
  "round_half_even x =
     (let f = \<lfloor>x\<rfloor>; d = x - of_int f
      in if d < 1 / 2 then f
         else if 1 / 2 < d then f + 1
         else if even f then f else f + 1)"

definition to_double :: "rat \<Rightarrow> number" where
  "to_double q =
     (if q = 0 then Finite 0
      else
        let a = \<bar>q\<bar>;
            e = max (floor_log2 a) (- 1022);
            ulp = pow2 (e - 52);
            r = of_int (round_half_even (a / ulp)) * ulp
        in if pow2 1024 \<le> r then (if 0 < q then PosInf else NegInf)
           else Finite (if 0 < q then r else - r))"

subsection \<open>Tokens\<close>

datatype token =
    TLBrace | TRBrace | TLBrack | TRBrack | TColon | TComma
  | TString jsstring
  | TNumber number
  | TTrue | TFalse | TNull

definition is_ws :: "char \<Rightarrow> bool" where
  "is_ws c = (c = CHR 0x20 \<or> c = CHR 0x09 \<or> c = CHR 0x0A \<or> c = CHR 0x0D)"

definition is_digit :: "char \<Rightarrow> bool" where
  "is_digit c = (48 \<le> (of_char c :: nat) \<and> (of_char c :: nat) \<le> 57)"

definition digit_val :: "char \<Rightarrow> nat" where
  "digit_val c = of_char c - 48"

definition nat_of_digits :: "string \<Rightarrow> nat" where
  "nat_of_digits ds = foldl (\<lambda>n c. 10 * n + digit_val c) 0 ds"

definition hex_val :: "char \<Rightarrow> nat option" where
  "hex_val c =
     (let n = (of_char c :: nat)
      in if 48 \<le> n \<and> n \<le> 57 then Some (n - 48)
         else if 65 \<le> n \<and> n \<le> 70 then Some (n - 55)
         else if 97 \<le> n \<and> n \<le> 102 then Some (n - 87)
         else None)"

text \<open>The single-character escapes of a JSON string: the character after the backslash.\<close>

definition escape :: "char \<Rightarrow> nat option" where
  "escape c =
     (if c = CHR 0x22 then Some 34
      else if c = CHR 0x5C then Some 92
      else if c = CHR ''/'' then Some 47
      else if c = CHR ''b'' then Some 8
      else if c = CHR ''f'' then Some 12
      else if c = CHR ''n'' then Some 10
      else if c = CHR ''r'' then Some 13
      else if c = CHR ''t'' then Some 9
      else None)"

definition cons_fst :: "'a \<Rightarrow> ('a list \<times> 'b) option \<Rightarrow> ('a list \<times> 'b) option" where
  "cons_fst u r = (case r of None \<Rightarrow> None | Some (s, rest) \<Rightarrow> Some (u # s, rest))"

text \<open>
  \<open>lex_string\<close> reads a string literal after its opening quote and returns its code
  units and the input after the closing quote. A control character below U+0020 must be
  escaped; \<^verbatim>\<open>\uXXXX\<close> gives one code unit.
\<close>

fun lex_string :: "string \<Rightarrow> (jsstring \<times> string) option" where
  "lex_string [] = None"
| "lex_string (c # cs) =
     (if c = CHR 0x22 then Some ([], cs)
      else if c = CHR 0x5C then
        (case cs of
           [] \<Rightarrow> None
         | e # r \<Rightarrow>
             if e = CHR ''u'' then
               (case r of
                  h1 # h2 # h3 # h4 # r' \<Rightarrow>
                    (case (hex_val h1, hex_val h2, hex_val h3, hex_val h4) of
                       (Some a, Some b, Some c', Some d) \<Rightarrow>
                         cons_fst (((a * 16 + b) * 16 + c') * 16 + d) (lex_string r')
                     | _ \<Rightarrow> None)
                | _ \<Rightarrow> None)
             else
               (case escape e of
                  None \<Rightarrow> None
                | Some u \<Rightarrow> cons_fst u (lex_string r)))
      else if (of_char c :: nat) < 32 then None
      else cons_fst (of_char c) (lex_string cs))"

text \<open>
  \<open>lex_number\<close> reads \<^verbatim>\<open>-? (0 | [1-9][0-9]*) (. [0-9]+)? ([eE] [+-]? [0-9]+)?\<close> and returns
  the exact decimal value with the rest of the input: the digits of the integer and the
  fraction part as one natural, scaled by ten to the exponent less the number of fraction
  digits.
\<close>

definition lex_sign :: "string \<Rightarrow> bool \<times> string" where
  "lex_sign s =
     (case s of
        [] \<Rightarrow> (False, s)
      | c # r \<Rightarrow> if c = CHR ''-'' then (True, r) else (False, s))"

definition lex_int :: "string \<Rightarrow> (string \<times> string) option" where
  "lex_int s =
     (let ip = takeWhile is_digit s
      in if ip = [] \<or> (hd ip = CHR ''0'' \<and> 1 < length ip) then None
         else Some (ip, dropWhile is_digit s))"

definition lex_frac :: "string \<Rightarrow> (string \<times> string) option" where
  "lex_frac s =
     (case s of
        [] \<Rightarrow> Some ([], s)
      | c # r \<Rightarrow>
          if c = CHR ''.'' then
            (let fp = takeWhile is_digit r
             in if fp = [] then None else Some (fp, dropWhile is_digit r))
          else Some ([], s))"

definition lex_exp_sign :: "string \<Rightarrow> bool \<times> string" where
  "lex_exp_sign s =
     (case s of
        [] \<Rightarrow> (False, s)
      | c # r \<Rightarrow>
          if c = CHR ''-'' then (True, r)
          else if c = CHR ''+'' then (False, r)
          else (False, s))"

definition lex_exp :: "string \<Rightarrow> (int \<times> string) option" where
  "lex_exp s =
     (case s of
        [] \<Rightarrow> Some (0, s)
      | c # r \<Rightarrow>
          if c = CHR ''e'' \<or> c = CHR ''E'' then
            (case lex_exp_sign r of
               (neg, r') \<Rightarrow>
                 let ep = takeWhile is_digit r'
                 in if ep = [] then None
                    else Some (if neg then - int (nat_of_digits ep) else int (nat_of_digits ep),
                               dropWhile is_digit r'))
          else Some (0, s))"

definition scale10 :: "rat \<Rightarrow> int \<Rightarrow> rat" where
  "scale10 m x = (if 0 \<le> x then m * 10 ^ nat x else m / 10 ^ nat (- x))"

definition lex_number :: "string \<Rightarrow> (rat \<times> string) option" where
  "lex_number s =
     (case lex_sign s of
        (neg, s1) \<Rightarrow>
          (case lex_int s1 of
             None \<Rightarrow> None
           | Some (ip, s2) \<Rightarrow>
               (case lex_frac s2 of
                  None \<Rightarrow> None
                | Some (fp, s3) \<Rightarrow>
                    (case lex_exp s3 of
                       None \<Rightarrow> None
                     | Some (x, s4) \<Rightarrow>
                         let v = scale10 (of_nat (nat_of_digits (ip @ fp))) (x - int (length fp))
                         in Some (if neg then - v else v, s4)))))"

text \<open>
  \<open>tokenize\<close> splits the whole text into tokens, skipping the four JSON white-space
  characters between them; \<open>None\<close> is a lexical error.
\<close>

definition cons_tok :: "token \<Rightarrow> token list option \<Rightarrow> token list option" where
  "cons_tok t r = (case r of None \<Rightarrow> None | Some ts \<Rightarrow> Some (t # ts))"

function tokenize :: "string \<Rightarrow> token list option" where
  "tokenize [] = Some []"
| "tokenize (c # cs) =
     (if is_ws c then tokenize cs
      else if c = CHR ''{'' then cons_tok TLBrace (tokenize cs)
      else if c = CHR ''}'' then cons_tok TRBrace (tokenize cs)
      else if c = CHR ''['' then cons_tok TLBrack (tokenize cs)
      else if c = CHR '']'' then cons_tok TRBrack (tokenize cs)
      else if c = CHR '':'' then cons_tok TColon (tokenize cs)
      else if c = CHR '','' then cons_tok TComma (tokenize cs)
      else if c = CHR 0x22 then
        (case lex_string cs of
           None \<Rightarrow> None
         | Some (s, r) \<Rightarrow> cons_tok (TString s) (tokenize r))
      else if c = CHR ''-'' \<or> is_digit c then
        (case lex_number (c # cs) of
           None \<Rightarrow> None
         | Some (q, r) \<Rightarrow> cons_tok (TNumber (to_double q)) (tokenize r))
      else if take 4 (c # cs) = ''true'' then cons_tok TTrue (tokenize (drop 3 cs))
      else if take 5 (c # cs) = ''false'' then cons_tok TFalse (tokenize (drop 4 cs))
      else if take 4 (c # cs) = ''null'' then cons_tok TNull (tokenize (drop 3 cs))
      else None)"
  by pat_completeness auto

subsection \<open>The parser\<close>

text \<open>
  The grammar of JSON values is recognised by a pushdown automaton over the tokens. The
  stack holds one frame per open array or object: the elements read so far (latest first),
  or the properties read so far and the key whose value is being read. The mode says what
  may come next.
\<close>

datatype frame =
    FArr "jsvalue list"
  | FObj "(jsstring \<times> jsvalue) list" "jsstring option"

datatype mode =
    MValue
  | MArrStart
  | MObjStart
  | MKey
  | MColon
  | MAfter
  | MDone jsvalue

text \<open>
  Defining a property: a name that is already there keeps its place and takes the new
  value, so of two equal keys in the text the later one wins. The list keeps the order of
  definition; JavaScript enumerates integer-like names first, which nothing here observes.
\<close>

fun obj_set :: "(jsstring \<times> jsvalue) list \<Rightarrow> jsstring \<Rightarrow> jsvalue \<Rightarrow> (jsstring \<times> jsvalue) list" where
  "obj_set [] k v = [(k, v)]"
| "obj_set (p # ps) k v = (if fst p = k then (k, v) # ps else p # obj_set ps k v)"

text \<open>A finished value goes to the enclosing frame, or is the result when none is open.\<close>

fun deliver :: "jsvalue \<Rightarrow> frame list \<Rightarrow> (frame list \<times> mode) option" where
  "deliver v [] = Some ([], MDone v)"
| "deliver v (FArr vs # st) = Some (FArr (v # vs) # st, MAfter)"
| "deliver v (FObj ps (Some k) # st) = Some (FObj (obj_set ps k v) None # st, MAfter)"
| "deliver v (FObj ps None # st) = None"

fun close_array :: "frame list \<Rightarrow> (frame list \<times> mode) option" where
  "close_array (FArr vs # st) = deliver (JArray (rev vs)) st"
| "close_array st = None"

fun close_object :: "frame list \<Rightarrow> (frame list \<times> mode) option" where
  "close_object (FObj ps None # st) = deliver (JObject ps) st"
| "close_object st = None"

fun set_key :: "jsstring \<Rightarrow> frame list \<Rightarrow> (frame list \<times> mode) option" where
  "set_key k (FObj ps None # st) = Some (FObj ps (Some k) # st, MColon)"
| "set_key k st = None"

fun begin_value :: "token \<Rightarrow> frame list \<Rightarrow> (frame list \<times> mode) option" where
  "begin_value TLBrack st = Some (FArr [] # st, MArrStart)"
| "begin_value TLBrace st = Some (FObj [] None # st, MObjStart)"
| "begin_value (TString s) st = deliver (JString s) st"
| "begin_value (TNumber n) st = deliver (JNumber n) st"
| "begin_value TTrue st = deliver (JBool True) st"
| "begin_value TFalse st = deliver (JBool False) st"
| "begin_value TNull st = deliver JNull st"
| "begin_value t st = None"

fun after_comma :: "frame list \<Rightarrow> (frame list \<times> mode) option" where
  "after_comma (FArr vs # st) = Some (FArr vs # st, MValue)"
| "after_comma (FObj ps None # st) = Some (FObj ps None # st, MKey)"
| "after_comma st = None"

fun step :: "token \<Rightarrow> frame list \<times> mode \<Rightarrow> (frame list \<times> mode) option" where
  "step t (st, MValue) = begin_value t st"
| "step t (st, MArrStart) = (if t = TRBrack then close_array st else begin_value t st)"
| "step t (st, MObjStart) =
     (case t of TRBrace \<Rightarrow> close_object st | TString k \<Rightarrow> set_key k st | _ \<Rightarrow> None)"
| "step t (st, MKey) = (case t of TString k \<Rightarrow> set_key k st | _ \<Rightarrow> None)"
| "step t (st, MColon) = (if t = TColon then Some (st, MValue) else None)"
| "step t (st, MAfter) =
     (case t of
        TComma \<Rightarrow> after_comma st
      | TRBrack \<Rightarrow> close_array st
      | TRBrace \<Rightarrow> close_object st
      | _ \<Rightarrow> None)"
| "step t (st, MDone v) = None"

fun run :: "token list \<Rightarrow> frame list \<times> mode \<Rightarrow> jsvalue option" where
  "run [] (st, m) = (case (st, m) of ([], MDone v) \<Rightarrow> Some v | _ \<Rightarrow> None)"
| "run (t # ts) s = (case step t s of None \<Rightarrow> None | Some s' \<Rightarrow> run ts s')"

text \<open>
  \<^verbatim>\<open>JSON.parse(text)\<close>: \<open>Some\<close> of the value, or \<open>None\<close> where JavaScript throws a
  \<^verbatim>\<open>SyntaxError\<close>.
\<close>

definition JSON_parse :: "string \<Rightarrow> jsvalue option" where
  "JSON_parse s = (case tokenize s of None \<Rightarrow> None | Some ts \<Rightarrow> run ts ([], MValue))"

section \<open>The session gate\<close>

text \<open>
  \<^verbatim>\<open>authorizationChecker\<close> reads \<^verbatim>\<open>action.request.headers.session\<close> and writes
  \<^verbatim>\<open>action.request.session\<close>. The headers are a dictionary from header names to values;
  a header that was not sent reads as \<^verbatim>\<open>undefined\<close>.
\<close>

record request =
  headers :: "string \<rightharpoonup> string"
  session :: jsvalue

record action =
  request :: request

text \<open>
  The function is \<^verbatim>\<open>async\<close>: a \<^verbatim>\<open>throw\<close> rejects the promise it returns, \<open>Inl\<close> here, and
  \<^verbatim>\<open>return true\<close> resolves it, \<open>Inr True\<close>. The action is returned as the call leaves it,
  since the assignment to \<^verbatim>\<open>action.request.session\<close> stays when a later line throws.
  \<^verbatim>\<open>action.request.session.userId\<close> is outside the \<^verbatim>\<open>try\<close> block, so the \<^verbatim>\<open>TypeError\<close> of
  a read on \<^verbatim>\<open>null\<close> leaves the function as it is.
\<close>

definition authorizationChecker :: "action \<Rightarrow> action \<times> (exn + bool)" where
  "authorizationChecker action =
     (case headers (request action) ''session'' of
        None \<Rightarrow> (action, Inl (N9Error (str ''session-required'') 401))
      | Some h \<Rightarrow>
          if \<not> truthy (JString (str h)) then
            (action, Inl (N9Error (str ''session-required'') 401))
          else
            (case JSON_parse h of
               None \<Rightarrow> (action, Inl (N9Error (str ''session-header-is-invalid'') 401))
             | Some v \<Rightarrow>
                 let action' = action\<lparr>request := (request action)\<lparr>session := v\<rparr>\<rparr>
                 in (case member (session (request action')) (str ''userId'') of
                       Inl e \<Rightarrow> (action', Inl e)
                     | Inr u \<Rightarrow>
                         if \<not> truthy u then
                           (action', Inl (N9Error (str ''session-header-has-no-userId'') 401))
                         else (action', Inr True))))"

subsection \<open>The gate as specified, and example requests\<close>

text \<open>
  The classification as the specification words it, to be compared with
  \<open>authorizationChecker\<close>: a request \<^emph>\<open>carries no session header value\<close> when the header
  is absent, and a parsed value \<^emph>\<open>lacks a truthy userId\<close> when reading \<^verbatim>\<open>userId\<close> from it
  gives nothing truthy, which holds of every primitive.
\<close>

definition gate_as_specified :: "string option \<Rightarrow> exn + bool" where
  "gate_as_specified hdr =
     (case hdr of
        None \<Rightarrow> Inl (N9Error (str ''session-required'') 401)
      | Some h \<Rightarrow>
          (case JSON_parse h of
             None \<Rightarrow> Inl (N9Error (str ''session-header-is-invalid'') 401)
           | Some v \<Rightarrow>
               if \<not> truthy (get_prop v (str ''userId''))
               then Inl (N9Error (str ''session-header-has-no-userId'') 401)
               else Inr True))"

text \<open>A request with the given \<^verbatim>\<open>session\<close> header and no session attached yet.\<close>

definition request_with :: "string \<Rightarrow> action" where
  "request_with h = \<lparr>request = \<lparr>headers = [''session'' \<mapsto> h], session = JUndefined\<rparr>\<rparr>"

definition attach :: "action \<Rightarrow> jsvalue \<Rightarrow> action" where
  "attach a v = a\<lparr>request := (request a)\<lparr>session := v\<rparr>\<rparr>"

section \<open>Conversion to a number\<close>

text \<open>
  \<^verbatim>\<open>status < 500\<close> converts the status to a number. For a string that is
  \<^verbatim>\<open>StringToNumber\<close>: white space and line terminators are trimmed; the empty string is
  0; the rest must be, as a whole, \<^verbatim>\<open>Infinity\<close> with an optional sign, a signed decimal
  literal (\<^verbatim>\<open>5\<close>, \<^verbatim>\<open>5.\<close>, \<^verbatim>\<open>.5\<close>, \<^verbatim>\<open>5.5e-1\<close>, leading zeros allowed) or an unsigned
  \<^verbatim>\<open>0x\<close>, \<^verbatim>\<open>0o\<close> or \<^verbatim>\<open>0b\<close> literal; anything else is NaN.
\<close>

definition is_str_ws :: "nat \<Rightarrow> bool" where
  "is_str_ws u =
     (u = 9 \<or> u = 10 \<or> u = 11 \<or> u = 12 \<or> u = 13 \<or> u = 32 \<or> u = 160 \<or> u = 5760
      \<or> (8192 \<le> u \<and> u \<le> 8202) \<or> u = 8232 \<or> u = 8233 \<or> u = 8239 \<or> u = 8287
      \<or> u = 12288 \<or> u = 65279)"

definition trim_ws :: "jsstring \<Rightarrow> jsstring" where
  "trim_ws s = rev (dropWhile is_str_ws (rev (dropWhile is_str_ws s)))"

definition is_dec :: "nat \<Rightarrow> bool" where
  "is_dec u = (48 \<le> u \<and> u \<le> 57)"

definition digit_of :: "nat \<Rightarrow> nat option" where
  "digit_of u =
     (if 48 \<le> u \<and> u \<le> 57 then Some (u - 48)
      else if 65 \<le> u \<and> u \<le> 70 then Some (u - 55)
      else if 97 \<le> u \<and> u \<le> 102 then Some (u - 87)
      else None)"

text \<open>The value of a run of digits in a base; \<open>None\<close> when a character is no digit of it.\<close>

fun radix_value :: "nat \<Rightarrow> nat \<Rightarrow> jsstring \<Rightarrow> nat option" where
  "radix_value b acc [] = Some acc"
| "radix_value b acc (u # us) =
     (case digit_of u of
        None \<Rightarrow> None
      | Some d \<Rightarrow> if b \<le> d then None else radix_value b (b * acc + d) us)"

definition radix_literal :: "nat \<Rightarrow> jsstring \<Rightarrow> number" where
  "radix_literal b ds =
     (if ds = [] then NaN
      else (case radix_value b 0 ds of None \<Rightarrow> NaN | Some n \<Rightarrow> to_double (of_nat n)))"

definition str_sign :: "jsstring \<Rightarrow> bool \<times> jsstring" where
  "str_sign s =
     (case s of
        [] \<Rightarrow> (False, s)
      | c # r \<Rightarrow> if c = 45 then (True, r) else if c = 43 then (False, r) else (False, s))"

text \<open>The exponent part, which must reach to the end of the string; none is exponent 0.\<close>

definition str_exponent :: "jsstring \<Rightarrow> int option" where
  "str_exponent s =
     (case s of
        [] \<Rightarrow> Some 0
      | c # r \<Rightarrow>
          if c = 101 \<or> c = 69 then
            (case str_sign r of
               (neg, ds) \<Rightarrow>
                 (if ds = [] \<or> \<not> list_all is_dec ds then None
                  else (case radix_value 10 0 ds of
                          None \<Rightarrow> None
                        | Some n \<Rightarrow> Some (if neg then - int n else int n))))
          else None)"

definition str_unsigned_decimal :: "jsstring \<Rightarrow> rat option" where
  "str_unsigned_decimal s =
     (let ip = takeWhile is_dec s;
          r1 = dropWhile is_dec s;
          has_dot = (r1 \<noteq> [] \<and> hd r1 = 46);
          fp = (if has_dot then takeWhile is_dec (tl r1) else []);
          r2 = (if has_dot then dropWhile is_dec (tl r1) else r1)
      in if ip = [] \<and> fp = [] then None
         else
           (case (radix_value 10 0 (ip @ fp), str_exponent r2) of
              (Some m, Some x) \<Rightarrow> Some (scale10 (of_nat m) (x - int (length fp)))
            | _ \<Rightarrow> None))"

definition StringToNumber :: "jsstring \<Rightarrow> number" where
  "StringToNumber s =
     (let t = trim_ws s
      in if t = [] then Finite 0
         else if t = str ''Infinity'' \<or> t = str ''+Infinity'' then PosInf
         else if t = str ''-Infinity'' then NegInf
         else if take 2 t = str ''0x'' \<or> take 2 t = str ''0X'' then radix_literal 16 (drop 2 t)
         else if take 2 t = str ''0o'' \<or> take 2 t = str ''0O'' then radix_literal 8 (drop 2 t)
         else if take 2 t = str ''0b'' \<or> take 2 t = str ''0B'' then radix_literal 2 (drop 2 t)
         else
           (case str_sign t of
              (neg, u) \<Rightarrow>
                (case str_unsigned_decimal u of
                   None \<Rightarrow> NaN
                 | Some q \<Rightarrow> to_double (if neg then - q else q))))"

text \<open>\<^verbatim>\<open>ToNumber\<close> of a primitive; \<open>None\<close> for an object, an array included.\<close>

fun ToNumber_primitive :: "jsvalue \<Rightarrow> number option" where
  "ToNumber_primitive JUndefined = Some NaN"
| "ToNumber_primitive JNull = Some (Finite 0)"
| "ToNumber_primitive (JBool b) = Some (Finite (if b then 1 else 0))"
| "ToNumber_primitive (JNumber n) = Some n"
| "ToNumber_primitive (JString s) = Some (StringToNumber s)"
| "ToNumber_primitive v = None"

text \<open>
  An object is first converted to a primitive by its own \<^verbatim>\<open>valueOf\<close> and \<^verbatim>\<open>toString\<close>,
  which depend on its class. For an ordinary array and an ordinary object they are known:
  the object reads \<^verbatim>\<open>[object Object]\<close>, which is no number; the array is its elements
  joined by commas, null and undefined reading as the empty string. So an empty array is
  0, an array of two or more elements is NaN, and an array of one element is the number of
  that element's string form (a number prints to a string that reads back as itself).
\<close>

fun plain_object_number :: "jsvalue \<Rightarrow> number" where
  "plain_object_number (JArray []) = Finite 0"
| "plain_object_number (JArray [JUndefined]) = Finite 0"
| "plain_object_number (JArray [JNull]) = Finite 0"
| "plain_object_number (JArray [JBool b]) = NaN"
| "plain_object_number (JArray [JNumber n]) = n"
| "plain_object_number (JArray [JString s]) = StringToNumber s"
| "plain_object_number (JArray [JArray ys]) = plain_object_number (JArray ys)"
| "plain_object_number (JArray [JObject ps]) = NaN"
| "plain_object_number (JArray (x # y # zs)) = NaN"
| "plain_object_number v = NaN"

text \<open>\<^verbatim>\<open>n | 0\<close>: the number truncated and wrapped to a signed 32-bit integer.\<close>

definition ToInt32 :: "number \<Rightarrow> int" where
  "ToInt32 x =
     (case x of
        Finite q \<Rightarrow>
          (let t = (if 0 \<le> q then \<lfloor>q\<rfloor> else \<lceil>q\<rceil>);
               m = t mod 2 ^ 32
           in if 2 ^ 31 \<le> m then m - 2 ^ 32 else m)
      | _ \<Rightarrow> 0)"

section \<open>The error interceptor\<close>

text \<open>
  \<^verbatim>\<open>ErrorHandler.error\<close> calls five services it does not define: \<^verbatim>\<open>JSON.stringify\<close>,
  \<^verbatim>\<open>warn\<close> and \<^verbatim>\<open>error\<close> of the logger \<^verbatim>\<open>global.log || console\<close>, and \<^verbatim>\<open>status\<close> and
  \<^verbatim>\<open>json\<close> of the response. Each may throw, and what it throws leaves the method, which
  has no \<^verbatim>\<open>try\<close>. They are parameters of the model, as is the number JavaScript makes
  of an object in a comparison.

  The logger is handed the failure itself, and JavaScript objects are shared: an object
  that the method has read from the failure (\<^verbatim>\<open>error.context\<close>, say) is the very object the
  logger can change before the response serialises it. A logger call that returns
  therefore yields a \<open>view\<close>: \<open>V k v\<close> is how the object \<open>v\<close>, which the method read as
  \<^verbatim>\<open>error.k\<close>, reads after the logging step. Primitive values are not shared, and neither is
  a value the method makes itself.

  A failure is a \<open>jsvalue\<close>: plain data, made of undefined, null, booleans, numbers,
  strings, arrays and objects, whose properties are read without running any code of the
  failure.
\<close>

type_synonym view = "string \<Rightarrow> jsvalue \<Rightarrow> jsvalue"

record env =
  JSON_stringify :: "jsvalue \<Rightarrow> exn + jsvalue"
  log_warn :: "jsvalue \<Rightarrow> jsvalue \<Rightarrow> exn + view"
  log_error :: "jsvalue \<Rightarrow> exn + view"
  response_status :: "jsvalue \<Rightarrow> exn option"
  response_json :: "jsvalue \<Rightarrow> jsvalue \<Rightarrow> exn option"
  ToNumber_object :: "jsvalue \<Rightarrow> exn + number"

text \<open>
  \<open>response_json E s b\<close> is the call \<^verbatim>\<open>response.json(b)\<close> on a response whose status was
  set to \<open>s\<close> by the call before it; \<^verbatim>\<open>response.status\<close> leaves the status it is handed as
  it is.
\<close>

text \<open>
  \<^verbatim>\<open>ToNumber\<close>: a primitive has its number; an object is converted by its own \<^verbatim>\<open>valueOf\<close>
  and \<^verbatim>\<open>toString\<close>, which may throw.
\<close>

definition ToNumber :: "env \<Rightarrow> jsvalue \<Rightarrow> exn + number" where
  "ToNumber E v =
     (case ToNumber_primitive v of Some n \<Rightarrow> Inr n | None \<Rightarrow> ToNumber_object E v)"

text \<open>The order of binary64: every comparison with NaN is false.\<close>

fun num_lt :: "number \<Rightarrow> number \<Rightarrow> bool" where
  "num_lt (Finite a) (Finite b) = (a < b)"
| "num_lt (Finite a) PosInf = True"
| "num_lt NegInf (Finite b) = True"
| "num_lt NegInf PosInf = True"
| "num_lt x y = False"

fun num_ge :: "number \<Rightarrow> number \<Rightarrow> bool" where
  "num_ge (Finite a) (Finite b) = (b \<le> a)"
| "num_ge PosInf (Finite b) = True"
| "num_ge (Finite a) NegInf = True"
| "num_ge PosInf PosInf = True"
| "num_ge NegInf NegInf = True"
| "num_ge PosInf NegInf = True"
| "num_ge x y = False"

text \<open>\<^verbatim>\<open>v < n\<close> for a number \<open>n\<close>.\<close>

definition js_lt :: "env \<Rightarrow> jsvalue \<Rightarrow> number \<Rightarrow> exn + bool" where
  "js_lt E v n = (case ToNumber E v of Inl e \<Rightarrow> Inl e | Inr x \<Rightarrow> Inr (num_lt x n))"

text \<open>
  What the method does is recorded as the list of the calls it makes on the logger and on
  the response, in order, with the exception that ended it, if any. A call is recorded
  when it is made: where the result holds an exception, the last call recorded threw it,
  or, when none is recorded, \<^verbatim>\<open>error.status\<close>, \<^verbatim>\<open>status < 500\<close> or \<^verbatim>\<open>JSON.stringify\<close> did.
\<close>

datatype event =
    LogWarn jsvalue jsvalue
  | LogError jsvalue
  | ResStatus jsvalue
  | ResJson jsvalue

text \<open>Lines 8 to 15: the three values, for an \<^verbatim>\<open>error\<close> that is not null or undefined.\<close>

definition status_of :: "jsvalue \<Rightarrow> jsvalue" where
  "status_of error =
     js_or (get_prop error (str ''status''))
       (js_or (get_prop error (str ''httpCode'')) (JNumber (Finite 500)))"

definition code_of :: "jsvalue \<Rightarrow> jsvalue" where
  "code_of error =
     (if truthy (get_prop error (str ''name''))
         \<and> get_prop error (str ''name'') \<noteq> JString (str ''Error'')
      then get_prop error (str ''name'')
      else if truthy (get_prop error (str ''message'')) then get_prop error (str ''message'')
      else JString (str ''unspecified-error''))"

definition context_of :: "jsvalue \<Rightarrow> jsvalue" where
  "context_of error =
     js_or (get_prop error (str ''context''))
       (js_or (get_prop error (str ''errors'')) (JObject []))"

text \<open>
  The same three values as the response reads them after the logging step: an object among
  them through the view, everything else as it was computed.
\<close>

fun is_object :: "jsvalue \<Rightarrow> bool" where
  "is_object (JArray xs) = True"
| "is_object (JObject ps) = True"
| "is_object v = False"

definition seen :: "view \<Rightarrow> string \<Rightarrow> jsvalue \<Rightarrow> jsvalue" where
  "seen V k v = (if is_object v then V k v else v)"

definition status_seen :: "view \<Rightarrow> jsvalue \<Rightarrow> jsvalue" where
  "status_seen V error =
     (if truthy (get_prop error (str ''status''))
      then seen V ''status'' (get_prop error (str ''status''))
      else if truthy (get_prop error (str ''httpCode''))
      then seen V ''httpCode'' (get_prop error (str ''httpCode''))
      else JNumber (Finite 500))"

definition code_seen :: "view \<Rightarrow> jsvalue \<Rightarrow> jsvalue" where
  "code_seen V error =
     (if truthy (get_prop error (str ''name''))
         \<and> get_prop error (str ''name'') \<noteq> JString (str ''Error'')
      then seen V ''name'' (get_prop error (str ''name''))
      else if truthy (get_prop error (str ''message''))
      then seen V ''message'' (get_prop error (str ''message''))
      else JString (str ''unspecified-error''))"

definition context_seen :: "view \<Rightarrow> jsvalue \<Rightarrow> jsvalue" where
  "context_seen V error =
     (if truthy (get_prop error (str ''context''))
      then seen V ''context'' (get_prop error (str ''context''))
      else if truthy (get_prop error (str ''errors''))
      then seen V ''errors'' (get_prop error (str ''errors''))
      else JObject [])"

definition body_seen :: "view \<Rightarrow> jsvalue \<Rightarrow> jsvalue" where
  "body_seen V error =
     JObject [(str ''code'', code_seen V error),
              (str ''status'', status_seen V error),
              (str ''context'', context_seen V error)]"

text \<open>
  Lines 16 to 20, the logging step: the comparison \<^verbatim>\<open>status < 500\<close>, then the logger call.
  In the warning branch \<^verbatim>\<open>JSON.stringify(error)\<close> is an argument of the call and is
  evaluated before it; when the comparison or \<^verbatim>\<open>JSON.stringify\<close> throws, no call is made.
\<close>

definition logging :: "env \<Rightarrow> jsvalue \<Rightarrow> event list \<times> (exn + view)" where
  "logging E error =
     (case js_lt E (status_of error) (Finite 500) of
        Inl e \<Rightarrow> ([], Inl e)
      | Inr below \<Rightarrow>
          if below then
            (case JSON_stringify E error of
               Inl e \<Rightarrow> ([], Inl e)
             | Inr s \<Rightarrow> ([LogWarn error s], log_warn E error s))
          else ([LogError error], log_error E error))"

text \<open>
  Lines 22 to 27: \<^verbatim>\<open>response.status(status)\<close>, then \<^verbatim>\<open>response.json({code, status, context})\<close>.
\<close>

definition respond :: "env \<Rightarrow> view \<Rightarrow> jsvalue \<Rightarrow> event list \<times> exn option" where
  "respond E V error =
     (case response_status E (status_seen V error) of
        Some e \<Rightarrow> ([ResStatus (status_seen V error)], Some e)
      | None \<Rightarrow>
          ([ResStatus (status_seen V error), ResJson (body_seen V error)],
           response_json E (status_seen V error) (body_seen V error)))"

text \<open>
  The method. The first thing it evaluates is \<^verbatim>\<open>error.status\<close>, which throws on null and
  undefined; the later property reads are on the same value and cannot throw.
\<close>

definition ErrorHandler_error :: "env \<Rightarrow> jsvalue \<Rightarrow> event list \<times> exn option" where
  "ErrorHandler_error E error =
     (if nullish error then ([], Some TypeError)
      else
        (case logging E error of
           (logged, Inl e) \<Rightarrow> (logged, Some e)
         | (logged, Inr V) \<Rightarrow>
             (case respond E V error of
                (written, outcome) \<Rightarrow> (logged @ written, outcome))))"

text \<open>The object literal of line 23 with the values as computed.\<close>

definition body_of :: "jsvalue \<Rightarrow> jsvalue" where
  "body_of error =
     JObject [(str ''code'', code_of error),
              (str ''status'', status_of error),
              (str ''context'', context_of error)]"

subsection \<open>The normalized error as specified, and example failures\<close>

datatype severity = Warning | Severe

fun logged :: "event \<Rightarrow> severity option" where
  "logged (LogWarn v s) = Some Warning"
| "logged (LogError v) = Some Severe"
| "logged ev = None"

definition severities :: "event list \<Rightarrow> severity list" where
  "severities evs = List.map_filter logged evs"

fun is_log :: "event \<Rightarrow> bool" where
  "is_log (LogWarn v s) = True"
| "is_log (LogError v) = True"
| "is_log ev = False"

text \<open>
  The normalized error as the specification words it, to be compared with what the method
  gives the response. A failure \<^emph>\<open>declares\<close> an HTTP status, a name, a message text or a
  structured detail when the field holds a truthy value; the status may be declared as
  \<^verbatim>\<open>status\<close> or as \<^verbatim>\<open>httpCode\<close>, the detail as \<^verbatim>\<open>context\<close> or as \<^verbatim>\<open>errors\<close> (the
  validation error list); the generic name is \<^verbatim>\<open>Error\<close>. What is declared is an object of
  the failure or a primitive; the object reaches the response as the logging step left it.
\<close>

definition declared :: "view \<Rightarrow> jsvalue \<Rightarrow> string \<Rightarrow> jsvalue option" where
  "declared V error field =
     (if truthy (get_prop error (str field))
      then Some (seen V field (get_prop error (str field)))
      else None)"

definition declared_status :: "view \<Rightarrow> jsvalue \<Rightarrow> jsvalue option" where
  "declared_status V error =
     (case declared V error ''status'' of
        Some s \<Rightarrow> Some s
      | None \<Rightarrow> declared V error ''httpCode'')"

definition specific_name :: "view \<Rightarrow> jsvalue \<Rightarrow> jsvalue option" where
  "specific_name V error =
     (if get_prop error (str ''name'') = JString (str ''Error'') then None
      else declared V error ''name'')"

definition declared_detail :: "view \<Rightarrow> jsvalue \<Rightarrow> jsvalue option" where
  "declared_detail V error =
     (case declared V error ''context'' of
        Some c \<Rightarrow> Some c
      | None \<Rightarrow> declared V error ''errors'')"

definition status_as_specified :: "view \<Rightarrow> jsvalue \<Rightarrow> jsvalue" where
  "status_as_specified V error =
     (case declared_status V error of Some s \<Rightarrow> s | None \<Rightarrow> JNumber (Finite 500))"

definition code_as_specified :: "view \<Rightarrow> jsvalue \<Rightarrow> jsvalue" where
  "code_as_specified V error =
     (case specific_name V error of
        Some n \<Rightarrow> n
      | None \<Rightarrow>
          (case declared V error ''message'' of
             Some m \<Rightarrow> m
           | None \<Rightarrow> JString (str ''unspecified-error'')))"

definition context_as_specified :: "view \<Rightarrow> jsvalue \<Rightarrow> jsvalue" where
  "context_as_specified V error =
     (case declared_detail V error of Some c \<Rightarrow> c | None \<Rightarrow> JObject [])"

definition body_as_specified :: "view \<Rightarrow> jsvalue \<Rightarrow> jsvalue" where
  "body_as_specified V error =
     JObject [(str ''code'', code_as_specified V error),
              (str ''status'', status_as_specified V error),
              (str ''context'', context_as_specified V error)]"

text \<open>
  Collaborators for the examples. A logger that changes nothing returns the view
  \<open>as_read\<close>. The response behaves as the one of Node.js: \<^verbatim>\<open>status\<close> stores the
  code, and \<^verbatim>\<open>json\<close>, writing the head, throws a \<^verbatim>\<open>RangeError\<close> unless the code, as a
  32-bit integer, lies in 100..999. Objects are ordinary ones. With \<open>quiet\<close> the logger
  and \<^verbatim>\<open>JSON.stringify\<close> return (what \<open>JSON_stringify\<close> returns is only passed on to
  \<^verbatim>\<open>warn\<close>); with \<open>log_down\<close> both logger methods throw; with \<open>stringify_fails\<close>
  \<^verbatim>\<open>JSON.stringify\<close> throws, as it does on a failure that refers to itself; with
  \<open>no_primitive\<close> the objects have no primitive value, as one made by
  \<^verbatim>\<open>Object.create(null)\<close>, so that comparing one with a number throws; with \<open>redacting\<close>
  the logger empties the failure's context object in place.
\<close>

definition as_read :: view where
  "as_read k v = v"

definition plain_number :: "jsvalue \<Rightarrow> number" where
  "plain_number v =
     (case ToNumber_primitive v of Some n \<Rightarrow> n | None \<Rightarrow> plain_object_number v)"

definition node_response_json :: "jsvalue \<Rightarrow> jsvalue \<Rightarrow> exn option" where
  "node_response_json s b =
     (if 100 \<le> ToInt32 (plain_number s) \<and> ToInt32 (plain_number s) \<le> 999 then None
      else Some RangeError)"

definition quiet :: env where
  "quiet =
     \<lparr>JSON_stringify = (\<lambda>v. Inr (JString [])),
      log_warn = (\<lambda>v s. Inr as_read),
      log_error = (\<lambda>v. Inr as_read),
      response_status = (\<lambda>s. None),
      response_json = node_response_json,
      ToNumber_object = (\<lambda>v. Inr (plain_object_number v))\<rparr>"

definition log_down :: env where
  "log_down =
     quiet\<lparr>log_warn := (\<lambda>v s. Inl (Foreign (JString (str ''log down'')))),
           log_error := (\<lambda>v. Inl (Foreign (JString (str ''log down''))))\<rparr>"

definition stringify_fails :: env where
  "stringify_fails = quiet\<lparr>JSON_stringify := (\<lambda>v. Inl TypeError)\<rparr>"

definition no_primitive :: env where
  "no_primitive = quiet\<lparr>ToNumber_object := (\<lambda>v. Inl TypeError)\<rparr>"

definition emptied :: view where
  "emptied k v = (if k = ''context'' then JObject [] else v)"

definition redacting :: env where
  "redacting = quiet\<lparr>log_warn := (\<lambda>v s. Inr emptied), log_error := (\<lambda>v. Inr emptied)\<rparr>"

text \<open>Failures for the examples.\<close>

definition not_found :: jsvalue where
  "not_found =
     JObject [(str ''name'', JString (str ''NotFoundError'')),
              (str ''message'', JString (str ''no such user'')),
              (str ''status'', JNumber (Finite 404)),
              (str ''context'', JObject [(str ''id'', JNumber (Finite 7))])]"

definition plain_error :: jsvalue where
  "plain_error =
     JObject [(str ''name'', JString (str ''Error'')), (str ''message'', JString [])]"

definition gateway_error :: jsvalue where
  "gateway_error =
     JObject [(str ''name'', JString (str ''Error'')),
              (str ''message'', JString (str ''upstream'')),
              (str ''status'', JNumber (Finite 0)),
              (str ''httpCode'', JNumber (Finite 502))]"

definition forbidden :: jsvalue where
  "forbidden =
     JObject [(str ''name'', JString (str ''ForbiddenError'')),
              (str ''httpCode'', JNumber (Finite 403))]"

definition opaque_status :: jsvalue where
  "opaque_status = JObject [(str ''status'', JObject [])]"

definition odd_status :: jsvalue where
  "odd_status = JObject [(str ''status'', JNumber (Finite 42))]"

section \<open>The routing-controller options\<close>

text \<open>
  Lines 23 to 32 and 77 to 97 of \<^verbatim>\<open>start-express-app.ts\<close> build the options object handed
  to \<^verbatim>\<open>useExpressServer\<close>. An options object is a dictionary from field names to values;
  a value is plain data, a list of middleware classes or an authorization function.
\<close>

datatype middleware = SessionLoaderInterceptor | ErrorHandler | CustomMiddleware nat

datatype rcvalue =
    RValue jsvalue
  | RInterceptors "middleware list"
  | RChecker "action \<Rightarrow> action \<times> (exn + bool)"

text \<open>
  Of \<^verbatim>\<open>options.http\<close> the fields that bear on the configuration: \<^verbatim>\<open>routingController\<close>, and
  \<^verbatim>\<open>beforeRoutingControllerLaunchHook\<close>, which line 153 calls with the options object
  itself between the assembly and its use. Of that hook the model keeps what it does to
  \<^verbatim>\<open>options.http.routingController\<close>.
\<close>

record http_options =
  routingController :: "(string \<rightharpoonup> rcvalue) option"
  beforeRoutingControllerLaunchHook :: "((string \<rightharpoonup> rcvalue) \<Rightarrow> (string \<rightharpoonup> rcvalue)) option"

record options =
  path :: string
  http :: "http_options option"

definition defaultRoutingControllerOptions :: "'a options_scheme \<Rightarrow> string \<rightharpoonup> rcvalue" where
  "defaultRoutingControllerOptions opts =
     [''defaults'' \<mapsto>
        RValue (JObject [(str ''nullResultCode'', JNumber (Finite 404)),
                         (str ''undefinedResultCode'', JNumber (Finite 204))]),
      ''defaultErrorHandler'' \<mapsto> RValue (JBool False),
      ''controllers'' \<mapsto> RValue (JArray [JString (str (path opts @ ''/**/*.controller.*s''))])]"

text \<open>
  \<^verbatim>\<open>Object.assign({}, a, b)\<close>: the properties of \<open>a\<close>, then those of \<open>b\<close> over them; an
  undefined source is skipped.
\<close>

definition Object_assign :: "('k \<rightharpoonup> 'v) \<Rightarrow> ('k \<rightharpoonup> 'v) option \<Rightarrow> ('k \<rightharpoonup> 'v)" where
  "Object_assign a b = (case b of None \<Rightarrow> a | Some m \<Rightarrow> a ++ m)"

text \<open>
  \<^verbatim>\<open>options.http = options.http || {}\<close> makes a missing \<^verbatim>\<open>http\<close> an object without
  \<^verbatim>\<open>routingController\<close> and without hook. \<open>configure\<close> is
  \<^verbatim>\<open>options.http.routingController\<close> as lines 77 to 97 leave it; \<open>configuration_used\<close> is
  what line 156 hands to \<^verbatim>\<open>useExpressServer\<close>.
\<close>

definition routingController_of :: "'a options_scheme \<Rightarrow> (string \<rightharpoonup> rcvalue) option" where
  "routingController_of opts = (case http opts of None \<Rightarrow> None | Some h \<Rightarrow> routingController h)"

definition configure :: "'a options_scheme \<Rightarrow> string \<rightharpoonup> rcvalue" where
  "configure opts =
     (let rc = Object_assign (defaultRoutingControllerOptions opts) (routingController_of opts);
          rc = rc(''interceptors'' \<mapsto> RInterceptors [SessionLoaderInterceptor, ErrorHandler]);
          rc = rc(''authorizationChecker'' \<mapsto> RChecker authorizationChecker);
          rc = rc(''validation'' \<mapsto>
                 RValue (JObject [(str ''whitelist'', JBool True),
                                  (str ''forbidNonWhitelisted'', JBool True)]))
      in rc)"

definition hook_of ::
  "'a options_scheme \<Rightarrow> ((string \<rightharpoonup> rcvalue) \<Rightarrow> (string \<rightharpoonup> rcvalue)) option" where
  "hook_of opts =
     (case http opts of None \<Rightarrow> None | Some h \<Rightarrow> beforeRoutingControllerLaunchHook h)"

definition configuration_used :: "'a options_scheme \<Rightarrow> string \<rightharpoonup> rcvalue" where
  "configuration_used opts =
     (case hook_of opts of
        None \<Rightarrow> configure opts
      | Some hook \<Rightarrow> hook (configure opts))"

subsection \<open>Example callers\<close>

text \<open>
  A caller that supplies every field itself: its own interceptor, authorization function
  and validation options, and \<^verbatim>\<open>defaultErrorHandler: true\<close>; and one whose hook puts its
  own interceptor back.
\<close>

definition allow_all :: "action \<Rightarrow> action \<times> (exn + bool)" where
  "allow_all a = (a, Inr True)"

definition caller_rc :: "string \<rightharpoonup> rcvalue" where
  "caller_rc =
     [''interceptors'' \<mapsto> RInterceptors [CustomMiddleware 1],
      ''authorizationChecker'' \<mapsto> RChecker allow_all,
      ''validation'' \<mapsto> RValue (JObject [(str ''whitelist'', JBool False)]),
      ''defaultErrorHandler'' \<mapsto> RValue (JBool True)]"

definition caller_options :: options where
  "caller_options =
     \<lparr>path = ''/srv/app'',
      http = Some \<lparr>routingController = Some caller_rc,
                    beforeRoutingControllerLaunchHook = None\<rparr>\<rparr>"

definition hooked_options :: options where
  "hooked_options =
     \<lparr>path = ''/srv/app'',
      http = Some \<lparr>routingController = None,
                    beforeRoutingControllerLaunchHook =
                      Some (\<lambda>rc. rc(''interceptors'' \<mapsto> RInterceptors [CustomMiddleware 1]))\<rparr>\<rparr>"

definition forced_validation :: rcvalue where
  "forced_validation =
     RValue (JObject [(str ''whitelist'', JBool True),
                      (str ''forbidNonWhitelisted'', JBool True)])"

section \<open>Termination of the tokenizer\<close>

lemma lex_string_length: "lex_string cs = Some (s, r) \<Longrightarrow> length r \<le> length cs"
proof (induction cs arbitrary: s r rule: lex_string.induct)
  case 1
  then show ?case by simp
next
  case (2 c cs)
  then show ?case
    by (auto simp: cons_fst_def le_SucI split: if_splits list.splits option.splits prod.splits)
qed

lemma lex_sign_length: "lex_sign s = (b, r) \<Longrightarrow> length r \<le> length s"
  by (auto simp: lex_sign_def split: list.splits if_splits)

lemma lex_exp_sign_length: "lex_exp_sign s = (b, r) \<Longrightarrow> length r \<le> length s"
  by (auto simp: lex_exp_sign_def split: list.splits if_splits)

lemma lex_int_length: "lex_int s = Some (ip, r) \<Longrightarrow> length r < length s"
proof -
  assume a: "lex_int s = Some (ip, r)"
  then have ip: "takeWhile is_digit s \<noteq> []" and r: "r = dropWhile is_digit s"
    by (auto simp: lex_int_def Let_def split: if_splits)
  have "length s = length (takeWhile is_digit s) + length (dropWhile is_digit s)"
    by (metis length_append takeWhile_dropWhile_id)
  with ip r show ?thesis
    by (cases "takeWhile is_digit s") auto
qed

lemma lex_frac_length: "lex_frac s = Some (fp, r) \<Longrightarrow> length r \<le> length s"
  by (auto simp: lex_frac_def Let_def le_SucI length_dropWhile_le split: list.splits if_splits)

lemma lex_exp_length: "lex_exp s = Some (x, r) \<Longrightarrow> length r \<le> length s"
proof -
  assume a: "lex_exp s = Some (x, r)"
  show ?thesis
  proof (cases s)
    case Nil
    with a show ?thesis by (simp add: lex_exp_def)
  next
    case (Cons c t)
    obtain neg t' where t': "lex_exp_sign t = (neg, t')"
      by (cases "lex_exp_sign t")
    have "length (dropWhile is_digit t') \<le> length t'"
      by (rule length_dropWhile_le)
    also have "\<dots> \<le> length t"
      using t' by (rule lex_exp_sign_length)
    finally have "length (dropWhile is_digit t') \<le> length s"
      using Cons by simp
    with a Cons t' show ?thesis
      by (auto simp: lex_exp_def Let_def split: if_splits)
  qed
qed

lemma lex_number_length:
  assumes "lex_number s = Some (v, r)"
  shows "length r < length s"
proof -
  obtain neg s1 where s1: "lex_sign s = (neg, s1)"
    by (cases "lex_sign s")
  from assms s1 obtain ip s2 where s2: "lex_int s1 = Some (ip, s2)"
    by (auto simp: lex_number_def split: option.splits)
  from assms s1 s2 obtain fp s3 where s3: "lex_frac s2 = Some (fp, s3)"
    by (auto simp: lex_number_def split: option.splits)
  from assms s1 s2 s3 obtain x where s4: "lex_exp s3 = Some (x, r)"
    by (auto simp: lex_number_def Let_def split: option.splits)
  show ?thesis
    using lex_sign_length [OF s1] lex_int_length [OF s2] lex_frac_length [OF s3]
      lex_exp_length [OF s4]
    by linarith
qed

termination tokenize
proof (relation "measure length", goal_cases)
  case 1
  show ?case by simp
next
  case (9 c cs x2 s r)
  then show ?case using lex_string_length [of cs s r] by simp
next
  case (10 c cs x2 q r)
  then show ?case using lex_number_length [of "c # cs" q r] by simp
qed simp_all

section \<open>Facts about JSON.parse\<close>

lemma bit_length_upper: "n < 2 ^ bit_length n"
proof (induction n rule: bit_length.induct)
  case (1 n)
  show ?case
  proof (cases "n = 0")
    case True
    then show ?thesis by (simp add: bit_length.simps)
  next
    case False
    with 1 have "n div 2 < 2 ^ bit_length (n div 2)" by simp
    then have "n < 2 * 2 ^ bit_length (n div 2)" by linarith
    with False show ?thesis by (subst bit_length.simps) simp
  qed
qed

lemma bit_length_lower: "0 < n \<Longrightarrow> 2 ^ (bit_length n - 1) \<le> n"
proof (induction n rule: bit_length.induct)
  case (1 n)
  show ?case
  proof (cases "n div 2 = 0")
    case True
    with 1(2) have "n = 1"
      by (simp add: div_eq_0_iff)
    then show ?thesis by (simp add: bit_length.simps)
  next
    case False
    with 1 have ih: "2 ^ (bit_length (n div 2) - 1) \<le> n div 2" by simp
    from False have pos: "0 < bit_length (n div 2)" by (subst bit_length.simps) simp
    have "bit_length n = Suc (bit_length (n div 2))"
      using 1(2) by (subst bit_length.simps) simp
    then have "2 ^ (bit_length n - 1) = 2 * 2 ^ (bit_length (n div 2) - 1)"
      using pos by (cases "bit_length (n div 2)") simp_all
    also have "\<dots> \<le> 2 * (n div 2)" using ih by simp
    also have "\<dots> \<le> n" by simp
    finally show ?thesis .
  qed
qed

lemma bit_length_pos: "0 < n \<Longrightarrow> 0 < bit_length n"
  by (subst bit_length.simps) simp

text \<open>\<open>floor_log2\<close> is the binary exponent of a positive rational.\<close>

lemma floor_log2_bounds:
  assumes "0 < a"
  shows "pow2 (floor_log2 a) \<le> a \<and> a < pow2 (floor_log2 a + 1)"
proof (cases "1 \<le> a")
  case True
  define n where "n = nat \<lfloor>a\<rfloor>"
  have n1: "0 < n" using True by (simp add: n_def)
  have fl: "floor_log2 a = int (bit_length n) - 1"
    using True by (simp add: floor_log2_def n_def)
  have bp: "0 < bit_length n" using n1 by (rule bit_length_pos)
  have fa: "0 \<le> \<lfloor>a\<rfloor>"
    using True by simp
  have eq: "(of_nat n :: rat) = of_int \<lfloor>a\<rfloor>"
    using fa by (simp add: n_def)
  have na: "of_nat n \<le> a" "a < of_nat n + 1"
    unfolding eq by linarith+
  have "(2::rat) ^ (bit_length n - 1) \<le> of_nat n"
    using bit_length_lower [OF n1] by (metis of_nat_le_iff of_nat_numeral of_nat_power)
  with na have lo: "(2::rat) ^ (bit_length n - 1) \<le> a" by linarith
  have "n + 1 \<le> 2 ^ bit_length n" using bit_length_upper [of n] by simp
  then have "(of_nat (n + 1) :: rat) \<le> of_nat (2 ^ bit_length n)"
    by (simp only: of_nat_le_iff)
  then have "(of_nat n :: rat) + 1 \<le> 2 ^ bit_length n" by simp
  with na have hi: "a < (2::rat) ^ bit_length n" by linarith
  have "nat (int (bit_length n) - 1) = bit_length n - 1" by simp
  moreover have "nat (int (bit_length n) - 1 + 1) = bit_length n" by simp
  ultimately show ?thesis
    using lo hi bp by (simp add: fl pow2_def)
next
  case False
  define m where "m = \<lceil>1 / a\<rceil>"
  define k where "k = bit_length (nat (m - 1))"
  from False assms have inv: "1 < 1 / a" by simp
  then have m2: "2 \<le> m" unfolding m_def by linarith
  have fl: "floor_log2 a = - int k"
    using False by (simp add: floor_log2_def k_def m_def)
  have n1: "0 < nat (m - 1)" using m2 by simp
  have kp: "0 < k" unfolding k_def using n1 by (rule bit_length_pos)
  have "nat (m - 1) < 2 ^ k" unfolding k_def by (rule bit_length_upper)
  then have "m - 1 < 2 ^ k" using m2 by (simp add: nat_less_iff)
  then have mle: "m \<le> 2 ^ k" by simp
  have "1 / a \<le> of_int m" unfolding m_def by (rule le_of_int_ceiling)
  also have "\<dots> \<le> of_int (2 ^ k)" using mle by (simp only: of_int_le_iff)
  finally have "1 / a \<le> 2 ^ k" by simp
  then have lo: "1 / 2 ^ k \<le> a"
    using assms by (simp add: field_simps)
  have "2 ^ (k - 1) \<le> nat (m - 1)" unfolding k_def using n1 by (rule bit_length_lower)
  then have "(2::int) ^ (k - 1) \<le> m - 1" using m2 by (simp add: le_nat_iff)
  then have "(of_int (2 ^ (k - 1)) :: rat) \<le> of_int (m - 1)" by (simp only: of_int_le_iff)
  moreover have "of_int (m - 1) < 1 / a"
    unfolding m_def by simp linarith
  ultimately have "(2::rat) ^ (k - 1) < 1 / a" by simp
  then have hi: "a < 1 / 2 ^ (k - 1)"
    using assms by (simp add: field_simps)
  show ?thesis
  proof (cases "k = 1")
    case True
    with lo hi show ?thesis by (simp add: fl pow2_def)
  next
    case False
    with kp have "nat (int k - 1) = k - 1" "\<not> 0 \<le> 1 - int k" by simp_all
    with lo hi kp show ?thesis by (simp add: fl pow2_def)
  qed
qed

lemma pow2_powi: "pow2 e = 2 powi e"
  by (simp add: pow2_def power_int_def power_one_over inverse_eq_divide)

lemma pow2_pos: "0 < pow2 e"
  by (simp add: pow2_def)

lemma pow2_less: "i < j \<Longrightarrow> pow2 i < pow2 j"
  unfolding pow2_powi by (rule power_int_strict_increasing) simp_all

lemma pow2_half: "pow2 e / 2 = pow2 (e - 1)"
  unfolding pow2_powi by (simp add: power_int_diff)

lemma round_half_even_zero: "0 \<le> x \<Longrightarrow> round_half_even x = 0 \<longleftrightarrow> x \<le> 1 / 2"
proof -
  assume x: "0 \<le> x"
  show ?thesis
  proof (cases "x < 1")
    case True
    with x have "\<lfloor>x\<rfloor> = 0" by linarith
    then show ?thesis
      by (auto simp: round_half_even_def Let_def)
  next
    case False
    then have "1 \<le> \<lfloor>x\<rfloor>" by linarith
    moreover have "\<lfloor>x\<rfloor> \<le> round_half_even x"
      by (simp add: round_half_even_def Let_def)
    ultimately have "round_half_even x \<noteq> 0" by linarith
    with False show ?thesis by simp
  qed
qed

text \<open>
  A number of a JSON text is falsy exactly when its magnitude is at most \<open>2 ^ (- 1075)\<close>,
  half of the least positive binary64.
\<close>

lemma to_double_zero_iff: "to_double q = Finite 0 \<longleftrightarrow> \<bar>q\<bar> \<le> 1 / 2 ^ 1075"
proof (cases "q = 0")
  case True
  then show ?thesis by (simp add: to_double_def)
next
  case False
  define a where "a = \<bar>q\<bar>"
  define e where "e = max (floor_log2 a) (- 1022)"
  define ulp where "ulp = pow2 (e - 52)"
  define n where "n = round_half_even (a / ulp)"
  have a: "0 < a" using False by (simp add: a_def)
  have ulp: "0 < ulp" by (simp add: ulp_def pow2_pos)
  have td: "to_double q =
      (if pow2 1024 \<le> of_int n * ulp then (if 0 < q then PosInf else NegInf)
       else Finite (if 0 < q then of_int n * ulp else - (of_int n * ulp)))"
    using False by (simp add: to_double_def Let_def a_def e_def ulp_def n_def)
  have "to_double q = Finite 0 \<longleftrightarrow> n = 0"
  proof
    assume "to_double q = Finite 0"
    then have "of_int n * ulp = 0"
      unfolding td by (auto split: if_splits)
    with ulp show "n = 0" by simp
  next
    assume "n = 0"
    then show "to_double q = Finite 0"
      unfolding td using pow2_pos [of 1024] by simp
  qed
  also have "n = 0 \<longleftrightarrow> a / ulp \<le> 1 / 2"
    unfolding n_def using a ulp by (intro round_half_even_zero) simp
  also have "a / ulp \<le> 1 / 2 \<longleftrightarrow> a \<le> pow2 (e - 53)"
  proof -
    have "ulp / 2 = pow2 (e - 53)"
      unfolding ulp_def pow2_half by simp
    then have "ulp = 2 * pow2 (e - 53)" by simp
    then show ?thesis by (simp add: field_simps pow2_pos)
  qed
  also have "a \<le> pow2 (e - 53) \<longleftrightarrow> a \<le> pow2 (- 1075)"
  proof -
    note fl = floor_log2_bounds [OF a]
    show ?thesis
    proof (cases "floor_log2 a < - 1022")
      case True
      then have "e = - 1022" by (simp add: e_def)
      then show ?thesis by simp
    next
      case False
      then have e: "e = floor_log2 a" by (simp add: e_def)
      have "pow2 (e - 53) < pow2 e" by (rule pow2_less) simp
      with fl e have 1: "\<not> a \<le> pow2 (e - 53)" by simp
      have "pow2 (- 1075) < pow2 e" using False e by (intro pow2_less) simp
      with fl e have 2: "\<not> a \<le> pow2 (- 1075)" by simp
      from 1 2 show ?thesis by simp
    qed
  qed
  also have "pow2 (- 1075) = 1 / 2 ^ 1075"
    by (simp add: pow2_def)
  finally show ?thesis by (simp add: a_def)
qed

lemma truthy_parsed_number:
  "truthy (JNumber (to_double q)) \<longleftrightarrow> 1 / 2 ^ 1075 < \<bar>q\<bar>"
proof -
  have "to_double q \<noteq> NaN"
    by (simp add: to_double_def Let_def)
  then show ?thesis
    using to_double_zero_iff [of q] by auto
qed

text \<open>The texts used as examples below, evaluated once.\<close>

lemma JSON_parse_empty: "JSON_parse [] = None"
  by code_simp

lemma JSON_parse_null: "JSON_parse ''null'' = Some JNull"
  by code_simp

lemma JSON_parse_bad: "JSON_parse ''bad'' = None"
  by code_simp

lemma JSON_parse_5: "JSON_parse ''5'' = Some (JNumber (Finite 5))"
  by code_simp

lemma JSON_parse_userId_0:
  \<open>JSON_parse ''{"userId":0}'' = Some (JObject [(str ''userId'', JNumber (Finite 0))])\<close>
  by code_simp

lemma JSON_parse_noUserId:
  \<open>JSON_parse ''{"noUserId":true}'' = Some (JObject [(str ''noUserId'', JBool True)])\<close>
  by code_simp

lemma JSON_parse_bruce:
  \<open>JSON_parse ''{"userId":1,"name":"Bruce Wayne"}'' =
     Some (JObject [(str ''userId'', JNumber (Finite 1)),
                    (str ''name'', JString (str ''Bruce Wayne''))])\<close>
  by code_simp

text \<open>The value of a text is never \<^verbatim>\<open>undefined\<close>: JSON has no such literal.\<close>

lemma deliver_defined:
  "deliver v st = Some (st', MDone w) \<Longrightarrow> w = v"
  by (cases "(v, st)" rule: deliver.cases) auto

lemma close_array_defined: "close_array st = Some (st', MDone w) \<Longrightarrow> w \<noteq> JUndefined"
  by (cases st rule: close_array.cases) (auto dest: deliver_defined)

lemma close_object_defined: "close_object st = Some (st', MDone w) \<Longrightarrow> w \<noteq> JUndefined"
  by (cases st rule: close_object.cases) (auto dest: deliver_defined)

lemma set_key_not_done: "set_key k st \<noteq> Some (st', MDone w)"
  by (cases "(k, st)" rule: set_key.cases) auto

lemma after_comma_not_done: "after_comma st \<noteq> Some (st', MDone w)"
  by (cases st rule: after_comma.cases) auto

lemma begin_value_defined: "begin_value t st = Some (st', MDone w) \<Longrightarrow> w \<noteq> JUndefined"
  by (cases "(t, st)" rule: begin_value.cases) (auto dest: deliver_defined)

lemma step_defined: "step t s = Some (st', MDone w) \<Longrightarrow> w \<noteq> JUndefined"
  by (cases "(t, s)" rule: step.cases)
    (auto split: if_splits token.splits
      dest: begin_value_defined close_array_defined close_object_defined
      simp: set_key_not_done after_comma_not_done)

lemma run_defined:
  "run ts s = Some v \<Longrightarrow> (\<And>w. snd s = MDone w \<Longrightarrow> w \<noteq> JUndefined) \<Longrightarrow> v \<noteq> JUndefined"
proof (induction ts arbitrary: s)
  case Nil
  then show ?case
    by (cases s) (auto split: list.splits mode.splits)
next
  case (Cons t ts)
  from Cons.prems(1) obtain s' where s': "step t s = Some s'" and r: "run ts s' = Some v"
    by (auto split: option.splits)
  have "\<And>w. snd s' = MDone w \<Longrightarrow> w \<noteq> JUndefined"
    using s' step_defined [of t s "fst s'"] by (cases s') auto
  with Cons.IH [OF r] show ?case by blast
qed

lemma JSON_parse_defined: "JSON_parse h = Some v \<Longrightarrow> v \<noteq> JUndefined"
  unfolding JSON_parse_def
  by (auto split: option.splits dest: run_defined)

section \<open>The session gate: properties\<close>

lemma header_request_with: "headers (request (request_with h)) ''session'' = Some h"
  by (simp add: request_with_def)

lemma str_empty_iff: "(str h = []) = (h = [])"
  by (simp add: str_def)

lemma gate_absent:
  "headers (request a) ''session'' = None \<Longrightarrow>
     authorizationChecker a = (a, Inl (N9Error (str ''session-required'') 401))"
  by (simp add: authorizationChecker_def)

lemma gate_empty:
  "headers (request a) ''session'' = Some [] \<Longrightarrow>
     authorizationChecker a = (a, Inl (N9Error (str ''session-required'') 401))"
  by (simp add: authorizationChecker_def str_empty_iff)

lemma gate_unparseable:
  "headers (request a) ''session'' = Some h \<Longrightarrow> h \<noteq> [] \<Longrightarrow> JSON_parse h = None \<Longrightarrow>
     authorizationChecker a = (a, Inl (N9Error (str ''session-header-is-invalid'') 401))"
  by (simp add: authorizationChecker_def str_empty_iff)

lemma gate_parsed:
  "headers (request a) ''session'' = Some h \<Longrightarrow> JSON_parse h = Some v \<Longrightarrow>
     authorizationChecker a =
       (attach a v,
        if nullish v then Inl TypeError
        else if \<not> truthy (get_prop v (str ''userId''))
        then Inl (N9Error (str ''session-header-has-no-userId'') 401)
        else Inr True)"
proof -
  assume h: "headers (request a) ''session'' = Some h" and v: "JSON_parse h = Some v"
  from v have "h \<noteq> []"
    using JSON_parse_empty by auto
  with h v show ?thesis
    by (simp add: authorizationChecker_def str_empty_iff member_def attach_def Let_def)
qed

lemma nullish_iff: "JSON_parse h = Some v \<Longrightarrow> nullish v = (v = JNull)"
  by (cases v) (auto dest: JSON_parse_defined)

text \<open>
  C1 (amended). The gate classifies a request by this case analysis: if the session header
  is absent or is the empty string it fails with status 401 and code session-required;
  otherwise, if the header value does not parse as JSON it fails with 401 and
  session-header-is-invalid; otherwise, if the parsed value is not null and lacks a truthy
  userId it fails with 401 and session-header-has-no-userId; otherwise, if the parsed
  value has a truthy userId, it succeeds.
\<close>

theorem gate_classification:
  "(headers (request a) ''session'' = None \<or> headers (request a) ''session'' = Some [] \<longrightarrow>
      snd (authorizationChecker a) = Inl (N9Error (str ''session-required'') 401))
   \<and> (headers (request a) ''session'' = Some h \<and> h \<noteq> [] \<and> JSON_parse h = None \<longrightarrow>
        snd (authorizationChecker a) = Inl (N9Error (str ''session-header-is-invalid'') 401))
   \<and> (headers (request a) ''session'' = Some h \<and> JSON_parse h = Some v \<and> v \<noteq> JNull
        \<and> \<not> truthy (get_prop v (str ''userId'')) \<longrightarrow>
        snd (authorizationChecker a) = Inl (N9Error (str ''session-header-has-no-userId'') 401))
   \<and> (headers (request a) ''session'' = Some h \<and> JSON_parse h = Some v
        \<and> truthy (get_prop v (str ''userId'')) \<longrightarrow>
        snd (authorizationChecker a) = Inr True)"
proof (intro conjI impI)
  assume "headers (request a) ''session'' = None \<or> headers (request a) ''session'' = Some []"
  then show "snd (authorizationChecker a) = Inl (N9Error (str ''session-required'') 401)"
    using gate_absent [of a] gate_empty [of a] by auto
next
  assume "headers (request a) ''session'' = Some h \<and> h \<noteq> [] \<and> JSON_parse h = None"
  then show "snd (authorizationChecker a) = Inl (N9Error (str ''session-header-is-invalid'') 401)"
    using gate_unparseable [of a h] by simp
next
  assume "headers (request a) ''session'' = Some h \<and> JSON_parse h = Some v \<and> v \<noteq> JNull
    \<and> \<not> truthy (get_prop v (str ''userId''))"
  then show "snd (authorizationChecker a) =
      Inl (N9Error (str ''session-header-has-no-userId'') 401)"
    using gate_parsed [of a h v] nullish_iff [of h v] by simp
next
  assume *: "headers (request a) ''session'' = Some h \<and> JSON_parse h = Some v
    \<and> truthy (get_prop v (str ''userId''))"
  then have "\<not> nullish v"
    by (cases v) auto
  with * show "snd (authorizationChecker a) = Inr True"
    using gate_parsed [of a h v] by simp
qed

theorem gate_classification_witness:
  \<open>(headers (request \<lparr>request = \<lparr>headers = Map.empty, session = JUndefined\<rparr>\<rparr>) ''session'' = None
    \<and> snd (authorizationChecker \<lparr>request = \<lparr>headers = Map.empty, session = JUndefined\<rparr>\<rparr>)
      = Inl (N9Error (str ''session-required'') 401))
   \<and> (headers (request (request_with ''bad'')) ''session'' = Some ''bad''
    \<and> ''bad'' \<noteq> [] \<and> JSON_parse ''bad'' = None
    \<and> snd (authorizationChecker (request_with ''bad''))
      = Inl (N9Error (str ''session-header-is-invalid'') 401))
   \<and> (JSON_parse ''{"noUserId":true}'' = Some (JObject [(str ''noUserId'', JBool True)])
    \<and> \<not> truthy (get_prop (JObject [(str ''noUserId'', JBool True)]) (str ''userId''))
    \<and> snd (authorizationChecker (request_with ''{"noUserId":true}''))
      = Inl (N9Error (str ''session-header-has-no-userId'') 401))
   \<and> (JSON_parse ''{"userId":1,"name":"Bruce Wayne"}''
      = Some (JObject [(str ''userId'', JNumber (Finite 1)),
                       (str ''name'', JString (str ''Bruce Wayne''))])
    \<and> truthy (get_prop (JObject [(str ''userId'', JNumber (Finite 1)),
                                 (str ''name'', JString (str ''Bruce Wayne''))]) (str ''userId''))
    \<and> snd (authorizationChecker (request_with ''{"userId":1,"name":"Bruce Wayne"}''))
      = Inr True)\<close>
proof -
  have 1: "snd (authorizationChecker \<lparr>request = \<lparr>headers = Map.empty, session = JUndefined\<rparr>\<rparr>)
      = Inl (N9Error (str ''session-required'') 401)"
    using gate_classification
      [of "\<lparr>request = \<lparr>headers = Map.empty, session = JUndefined\<rparr>\<rparr>" "[]" JNull]
    by simp
  have 2: "snd (authorizationChecker (request_with ''bad''))
      = Inl (N9Error (str ''session-header-is-invalid'') 401)"
    using gate_classification [of "request_with ''bad''" "''bad''" JNull]
    by (simp add: header_request_with JSON_parse_bad)
  have 3: \<open>snd (authorizationChecker (request_with ''{"noUserId":true}''))
      = Inl (N9Error (str ''session-header-has-no-userId'') 401)\<close>
    using gate_classification [of \<open>request_with ''{"noUserId":true}''\<close> \<open>''{"noUserId":true}''\<close>
        "JObject [(str ''noUserId'', JBool True)]"]
    by (simp add: header_request_with JSON_parse_noUserId lookup_def str_def)
  have 4: \<open>snd (authorizationChecker (request_with ''{"userId":1,"name":"Bruce Wayne"}''))
      = Inr True\<close>
    using gate_classification [of \<open>request_with ''{"userId":1,"name":"Bruce Wayne"}''\<close>
        \<open>''{"userId":1,"name":"Bruce Wayne"}''\<close>
        "JObject [(str ''userId'', JNumber (Finite 1)),
                  (str ''name'', JString (str ''Bruce Wayne''))]"]
    by (simp add: header_request_with JSON_parse_bruce lookup_def str_def)
  show ?thesis
    using 1 2 3 4
    by (simp add: header_request_with JSON_parse_bad JSON_parse_noUserId JSON_parse_bruce
        lookup_def str_def)
qed

theorem gate_classification_counterexample:
  "snd (authorizationChecker (request_with '''')) = Inl (N9Error (str ''session-required'') 401)
   \<and> gate_as_specified (headers (request (request_with '''')) ''session'')
       = Inl (N9Error (str ''session-header-is-invalid'') 401)"
  by (simp add: gate_empty header_request_with gate_as_specified_def JSON_parse_empty)

text \<open>
  C4 (amended). For every request whose session header is present but equal to the empty
  string, the gate fails with status 401 and code session-required: the empty string is
  falsy, so it is treated like an absent header and is never parsed. The request is left
  as it was.
\<close>

theorem gate_empty_header:
  "headers (request a) ''session'' = Some [] \<Longrightarrow>
     authorizationChecker a = (a, Inl (N9Error (str ''session-required'') 401))"
  by (rule gate_empty)

theorem gate_empty_header_witness:
  "headers (request (request_with '''')) ''session'' = Some []
   \<and> authorizationChecker (request_with '''')
       = (request_with '''', Inl (N9Error (str ''session-required'') 401))"
  using gate_empty_header [of "request_with ''''"]
  by (simp add: header_request_with)

theorem gate_empty_header_counterexample:
  "headers (request (request_with '''')) ''session'' = Some []
   \<and> snd (authorizationChecker (request_with ''''))
       \<noteq> Inl (N9Error (str ''session-header-is-invalid'') 401)"
  by (simp add: gate_empty header_request_with str_def)

text \<open>
  The two edge cases the specification names: the header \<^verbatim>\<open>5\<close>, which parses to a number,
  and an object with \<^verbatim>\<open>userId: 0\<close>. Both are rejected for want of a truthy userId, with
  the parsed value left attached.
\<close>

lemma gate_primitive_and_zero:
  \<open>authorizationChecker (request_with ''5'')
     = (attach (request_with ''5'') (JNumber (Finite 5)),
        Inl (N9Error (str ''session-header-has-no-userId'') 401))\<close>
  \<open>authorizationChecker (request_with ''{"userId":0}'')
     = (attach (request_with ''{"userId":0}'') (JObject [(str ''userId'', JNumber (Finite 0))]),
        Inl (N9Error (str ''session-header-has-no-userId'') 401))\<close>
  by (simp_all add: gate_parsed [OF header_request_with JSON_parse_5]
      gate_parsed [OF header_request_with JSON_parse_userId_0] lookup_def)

text \<open>
  C5. The header \<^verbatim>\<open>null\<close> is valid JSON whose value, null, has no truthy userId; the gate
  does not fail with session-header-has-no-userId on it but with the \<^verbatim>\<open>TypeError\<close> of
  reading \<^verbatim>\<open>userId\<close> from null, after attaching null as the session.
\<close>

theorem gate_null_session:
  "JSON_parse ''null'' = Some JNull
   \<and> \<not> truthy (get_prop JNull (str ''userId''))
   \<and> authorizationChecker (request_with ''null'')
       = (attach (request_with ''null'') JNull, Inl TypeError)"
  by (simp add: gate_parsed [of _ "''null''" JNull] header_request_with JSON_parse_null)

text \<open>
  C6. For every request whose session header parses to a JSON object with a truthy userId
  field, the gate raises no failure: it returns true, and the request leaves it with
  exactly the parsed object as its session, everything else unchanged.
\<close>

theorem gate_accepts:
  "headers (request a) ''session'' = Some h \<Longrightarrow> JSON_parse h = Some (JObject ps) \<Longrightarrow>
   truthy (lookup ps (str ''userId'')) \<Longrightarrow>
     authorizationChecker a = (a\<lparr>request := (request a)\<lparr>session := JObject ps\<rparr>\<rparr>, Inr True)"
  using gate_parsed [of a h "JObject ps"] by (simp add: attach_def)

theorem gate_accepts_witness:
  \<open>headers (request (request_with ''{"userId":1,"name":"Bruce Wayne"}'')) ''session''
      = Some ''{"userId":1,"name":"Bruce Wayne"}''
   \<and> JSON_parse ''{"userId":1,"name":"Bruce Wayne"}''
      = Some (JObject [(str ''userId'', JNumber (Finite 1)),
                       (str ''name'', JString (str ''Bruce Wayne''))])
   \<and> truthy (lookup [(str ''userId'', JNumber (Finite 1)),
                      (str ''name'', JString (str ''Bruce Wayne''))] (str ''userId''))
   \<and> authorizationChecker (request_with ''{"userId":1,"name":"Bruce Wayne"}'')
      = (\<lparr>request = \<lparr>headers = [''session'' \<mapsto> ''{"userId":1,"name":"Bruce Wayne"}''],
                      session = JObject [(str ''userId'', JNumber (Finite 1)),
                                         (str ''name'', JString (str ''Bruce Wayne''))]\<rparr>\<rparr>,
         Inr True)\<close>
proof -
  have t: "truthy (lookup [(str ''userId'', JNumber (Finite 1)),
                      (str ''name'', JString (str ''Bruce Wayne''))] (str ''userId''))"
    by (simp add: lookup_def)
  show ?thesis
    using gate_accepts [OF header_request_with JSON_parse_bruce t] t
    by (simp add: header_request_with JSON_parse_bruce request_with_def)
qed

section \<open>The error interceptor: properties\<close>

lemma handler_nullish:
  "nullish error \<Longrightarrow> ErrorHandler_error E error = ([], Some TypeError)"
  by (simp add: ErrorHandler_error_def)

lemma handler_logging_throws:
  "\<not> nullish error \<Longrightarrow> snd (logging E error) = Inl e \<Longrightarrow>
     ErrorHandler_error E error = (fst (logging E error), Some e)"
  by (cases "logging E error") (simp add: ErrorHandler_error_def)

lemma handler_logging_returns:
  "\<not> nullish error \<Longrightarrow> snd (logging E error) = Inr V \<Longrightarrow>
     ErrorHandler_error E error =
       (fst (logging E error) @ fst (respond E V error), snd (respond E V error))"
  by (cases "logging E error"; cases "respond E V error") (simp add: ErrorHandler_error_def)


lemma logging_returns_one:
  "snd (logging E error) = Inr V \<Longrightarrow> \<exists>l. is_log l \<and> fst (logging E error) = [l]"
  by (auto simp: logging_def split: if_splits sum.splits)

lemma respond_events:
  "fst (respond E V error) = [ResStatus (status_seen V error)]
   \<or> fst (respond E V error) = [ResStatus (status_seen V error), ResJson (body_seen V error)]"
  by (simp add: respond_def split: option.splits)

lemma respond_returns_iff:
  "snd (respond E V error) = None \<longleftrightarrow>
     response_status E (status_seen V error) = None
     \<and> response_json E (status_seen V error) (body_seen V error) = None"
  by (simp add: respond_def split: option.splits)

lemma respond_returns:
  "response_status E (status_seen V error) = None \<Longrightarrow>
   response_json E (status_seen V error) (body_seen V error) = None \<Longrightarrow>
     respond E V error =
       ([ResStatus (status_seen V error), ResJson (body_seen V error)], None)"
  by (simp add: respond_def)

lemma handler_completes:
  assumes "\<not> nullish error" and "snd (logging E error) = Inr V"
    and "response_status E (status_seen V error) = None"
    and "response_json E (status_seen V error) (body_seen V error) = None"
  shows "\<exists>l. is_log l \<and>
           ErrorHandler_error E error =
             ([l, ResStatus (status_seen V error), ResJson (body_seen V error)], None)"
  using logging_returns_one [OF assms(2)] handler_logging_returns [OF assms(1,2)]
    respond_returns [OF assms(3,4)]
  by auto

lemma seen_primitive: "\<not> is_object v \<Longrightarrow> seen V k v = v"
  by (simp add: seen_def)

lemma seen_as_read: "seen as_read k v = v"
  by (simp add: seen_def as_read_def)

lemma status_seen_as_read: "status_seen as_read error = status_of error"
  by (simp add: status_seen_def status_of_def js_or_def seen_as_read)

lemma code_seen_as_read: "code_seen as_read error = code_of error"
  by (simp add: code_seen_def code_of_def seen_as_read)

lemma context_seen_as_read: "context_seen as_read error = context_of error"
  by (simp add: context_seen_def context_of_def js_or_def seen_as_read)

lemma body_seen_as_read: "body_seen as_read error = body_of error"
  by (simp add: body_seen_def body_of_def status_seen_as_read code_seen_as_read
      context_seen_as_read)

lemma status_seen_primitive:
  "\<not> is_object (status_of error) \<Longrightarrow> status_seen V error = status_of error"
  by (auto simp: status_seen_def status_of_def js_or_def seen_primitive split: if_splits)

lemma status_as_specified_eq: "status_as_specified V error = status_seen V error"
  by (simp add: status_as_specified_def declared_status_def declared_def status_seen_def)

lemma code_as_specified_eq: "code_as_specified V error = code_seen V error"
  by (simp add: code_as_specified_def specific_name_def declared_def code_seen_def)

lemma context_as_specified_eq: "context_as_specified V error = context_seen V error"
  by (simp add: context_as_specified_def declared_detail_def declared_def context_seen_def)

lemma js_lt_number: "js_lt E (JNumber (Finite q)) (Finite r) = Inr (q < r)"
  by (simp add: js_lt_def ToNumber_def)

text \<open>The examples, evaluated once.\<close>

lemma status_of_not_found: "status_of not_found = JNumber (Finite 404)"
  by (simp add: status_of_def not_found_def lookup_def js_or_def str_def)

lemma code_of_not_found: "code_of not_found = JString (str ''NotFoundError'')"
  by (simp add: code_of_def not_found_def lookup_def str_def)

lemma context_of_not_found: "context_of not_found = JObject [(str ''id'', JNumber (Finite 7))]"
  by (simp add: context_of_def not_found_def lookup_def js_or_def str_def)

lemma status_of_plain_error: "status_of plain_error = JNumber (Finite 500)"
  by (simp add: status_of_def plain_error_def lookup_def js_or_def str_def)





lemma status_of_odd_status: "status_of odd_status = JNumber (Finite 42)"
  by (simp add: status_of_def odd_status_def lookup_def js_or_def str_def)

lemma code_of_odd_status: "code_of odd_status = JString (str ''unspecified-error'')"
  by (simp add: code_of_def odd_status_def lookup_def str_def)

lemma context_of_odd_status: "context_of odd_status = JObject []"
  by (simp add: context_of_def odd_status_def lookup_def js_or_def str_def)

lemma not_nullish_examples:
  "\<not> nullish not_found" "\<not> nullish plain_error" "\<not> nullish gateway_error"
  "\<not> nullish odd_status" "\<not> nullish forbidden"
  by (simp_all add: not_found_def plain_error_def gateway_error_def odd_status_def
      forbidden_def)

lemma node_accepts:
  "node_response_json (JNumber (Finite 404)) b = None"
  "node_response_json (JNumber (Finite 403)) b = None"
  "node_response_json (JNumber (Finite 500)) b = None"
  "node_response_json (JNumber (Finite 502)) b = None"
  "node_response_json (JNumber (Finite 42)) b = Some RangeError"
  by (simp_all add: node_response_json_def plain_number_def ToInt32_def)

lemma logging_quiet_warn:
  "js_lt quiet (status_of error) (Finite 500) = Inr True \<Longrightarrow>
     logging quiet error = ([LogWarn error (JString [])], Inr as_read)"
  by (simp add: logging_def) (simp add: quiet_def)

lemma logging_quiet_error:
  "js_lt quiet (status_of error) (Finite 500) = Inr False \<Longrightarrow>
     logging quiet error = ([LogError error], Inr as_read)"
  by (simp add: logging_def) (simp add: quiet_def)

lemma respond_quiet:
  "respond quiet V error =
     ([ResStatus (status_seen V error), ResJson (body_seen V error)],
      node_response_json (status_seen V error) (body_seen V error))"
  by (simp add: respond_def quiet_def)





text \<open>
  A status that is no HTTP status code: the logger is called and the status is set, and
  then \<^verbatim>\<open>response.json\<close> throws, so no body is sent.
\<close>

lemma handler_quiet_odd_status:
  "ErrorHandler_error quiet odd_status =
     ([LogWarn odd_status (JString []),
       ResStatus (JNumber (Finite 42)),
       ResJson (JObject [(str ''code'', JString (str ''unspecified-error'')),
                         (str ''status'', JNumber (Finite 42)),
                         (str ''context'', JObject [])])], Some RangeError)"
proof -
  have l: "logging quiet odd_status = ([LogWarn odd_status (JString [])], Inr as_read)"
    by (rule logging_quiet_warn) (simp add: status_of_odd_status js_lt_number)
  show ?thesis
    using handler_logging_returns [of odd_status quiet as_read]
    by (simp add: l not_nullish_examples respond_quiet status_seen_as_read body_seen_as_read
        body_of_def status_of_odd_status code_of_odd_status context_of_odd_status node_accepts)
qed

text \<open>\<^verbatim>\<open>JSON.stringify\<close> throws on a failure with a status below 500: nothing is logged or sent.\<close>

lemma handler_stringify_fails_not_found:
  "ErrorHandler_error stringify_fails not_found = ([], Some TypeError)"
proof -
  have "js_lt stringify_fails (status_of not_found) (Finite 500) = Inr True"
    by (simp add: status_of_not_found js_lt_number)
  then have "logging stringify_fails not_found = ([], Inl TypeError)"
    by (simp add: logging_def) (simp add: stringify_fails_def)
  then show ?thesis
    using handler_logging_throws [of not_found stringify_fails TypeError]
    by (simp add: not_nullish_examples)
qed

text \<open>The comparison \<^verbatim>\<open>status < 500\<close> throws: nothing is logged or sent.\<close>

lemma handler_no_primitive_opaque:
  "ErrorHandler_error no_primitive opaque_status = ([], Some TypeError)"
proof -
  have "status_of opaque_status = JObject []"
    by (simp add: status_of_def opaque_status_def js_or_def lookup_def str_def)
  then have "js_lt no_primitive (status_of opaque_status) (Finite 500) = Inl TypeError"
    by (simp add: js_lt_def ToNumber_def no_primitive_def)
  then have "logging no_primitive opaque_status = ([], Inl TypeError)"
    by (simp add: logging_def)
  then show ?thesis
    using handler_logging_throws [of opaque_status no_primitive TypeError]
    by (simp add: opaque_status_def)
qed

text \<open>The logger throws: the call was made, nothing is sent.\<close>

lemma handler_log_down_plain:
  "ErrorHandler_error log_down plain_error =
     ([LogError plain_error], Some (Foreign (JString (str ''log down''))))"
proof -
  have "js_lt log_down (status_of plain_error) (Finite 500) = Inr False"
    by (simp add: status_of_plain_error js_lt_number)
  then have "logging log_down plain_error =
      ([LogError plain_error], Inl (Foreign (JString (str ''log down''))))"
    by (simp add: logging_def) (simp add: log_down_def)
  then show ?thesis
    using handler_logging_throws [of plain_error log_down]
    by (simp add: not_nullish_examples)
qed

text \<open>
  The logger empties the context object it was handed: the body sent has the emptied
  context, not the one the method read.
\<close>

lemma handler_redacting_not_found:
  "context_of not_found = JObject [(str ''id'', JNumber (Finite 7))]"
  "ErrorHandler_error redacting not_found =
     ([LogWarn not_found (JString []),
       ResStatus (JNumber (Finite 404)),
       ResJson (JObject [(str ''code'', JString (str ''NotFoundError'')),
                         (str ''status'', JNumber (Finite 404)),
                         (str ''context'', JObject [])])], None)"
proof -
  show "context_of not_found = JObject [(str ''id'', JNumber (Finite 7))]"
    by (rule context_of_not_found)
  have "js_lt redacting (status_of not_found) (Finite 500) = Inr True"
    by (simp add: status_of_not_found js_lt_number)
  then have l: "logging redacting not_found = ([LogWarn not_found (JString [])], Inr emptied)"
    by (simp add: logging_def) (simp add: redacting_def quiet_def)
  have s: "status_seen emptied not_found = JNumber (Finite 404)"
    using status_seen_primitive [of not_found emptied] by (simp add: status_of_not_found)
  have c: "code_seen emptied not_found = JString (str ''NotFoundError'')"
    by (simp add: code_seen_def not_found_def lookup_def str_def seen_def)
  have x: "context_seen emptied not_found = JObject []"
    by (simp add: context_seen_def not_found_def lookup_def str_def seen_def emptied_def)
  have r: "respond redacting emptied not_found =
      ([ResStatus (JNumber (Finite 404)),
        ResJson (JObject [(str ''code'', JString (str ''NotFoundError'')),
                          (str ''status'', JNumber (Finite 404)),
                          (str ''context'', JObject [])])], None)"
  proof -
    have "respond redacting emptied not_found =
        ([ResStatus (status_seen emptied not_found), ResJson (body_seen emptied not_found)],
         node_response_json (status_seen emptied not_found) (body_seen emptied not_found))"
      by (simp add: respond_def redacting_def quiet_def)
    then show ?thesis
      by (simp add: s body_seen_def c x node_accepts)
  qed
  show "ErrorHandler_error redacting not_found =
     ([LogWarn not_found (JString []),
       ResStatus (JNumber (Finite 404)),
       ResJson (JObject [(str ''code'', JString (str ''NotFoundError'')),
                         (str ''status'', JNumber (Finite 404)),
                         (str ''context'', JObject [])])], None)"
    using handler_logging_returns [of not_found redacting emptied]
    by (simp add: l r not_nullish_examples)
qed

lemma body_as_specified_eq: "body_as_specified V error = body_seen V error"
  by (simp add: body_as_specified_def body_seen_def status_as_specified_eq code_as_specified_eq
      context_as_specified_eq)

lemma severities_logging:
  "severities (fst (logging E error)) =
     (case js_lt E (status_of error) (Finite 500) of
        Inl e \<Rightarrow> []
      | Inr below \<Rightarrow>
          if below
          then (case JSON_stringify E error of Inl e \<Rightarrow> [] | Inr s \<Rightarrow> [Warning])
          else [Severe])"
  by (simp add: logging_def severities_def List.map_filter_simps split: sum.splits)

lemma severities_respond: "severities (fst (respond E V error)) = []"
  using respond_events [of E V error]
  by (auto simp: severities_def List.map_filter_simps)

lemma severities_append: "severities (xs @ ys) = severities xs @ severities ys"
  by (simp add: severities_def List.map_filter_def)

lemma handler_severities:
  "\<not> nullish error \<Longrightarrow>
     severities (fst (ErrorHandler_error E error)) = severities (fst (logging E error))"
proof -
  assume n: "\<not> nullish error"
  show ?thesis
  proof (cases "snd (logging E error)")
    case (Inl e)
    then show ?thesis by (simp add: handler_logging_throws [OF n])
  next
    case (Inr V)
    then show ?thesis
      by (simp add: handler_logging_returns [OF n] severities_append severities_respond)
  qed
qed

lemma num_ge_not_lt: "num_ge x y \<Longrightarrow> \<not> num_lt x y"
  by (cases "(x, y)" rule: num_lt.cases) auto

text \<open>
  A failure of the gate on its way out. An \<^verbatim>\<open>N9Error\<close> carries its message and status
  and has the name \<^verbatim>\<open>Error\<close> of the class it extends, so the interceptor, where the
  logging step returns and the response accepts, answers with that status and with the
  message as code, logging a warning for a status of 401.
\<close>

lemma handler_on_gate_failure:
  assumes "get_prop e (str ''status'') = JNumber (Finite 401)"
    and "get_prop e (str ''name'') = JString (str ''Error'')"
    and "get_prop e (str ''message'') = JString m" and "m \<noteq> []"
    and "\<not> nullish e" and "snd (logging E e) = Inr V"
    and "response_status E (JNumber (Finite 401)) = None"
    and "response_json E (JNumber (Finite 401))
           (JObject [(str ''code'', JString m),
                     (str ''status'', JNumber (Finite 401)),
                     (str ''context'', context_seen V e)]) = None"
  shows "\<exists>s. ErrorHandler_error E e =
           ([LogWarn e s,
             ResStatus (JNumber (Finite 401)),
             ResJson (JObject [(str ''code'', JString m),
                               (str ''status'', JNumber (Finite 401)),
                               (str ''context'', context_seen V e)])], None)"
proof -
  have st: "status_of e = JNumber (Finite 401)"
    using assms(1) by (simp add: status_of_def js_or_def)
  have ss: "status_seen V e = JNumber (Finite 401)"
    using status_seen_primitive [of e V] by (simp add: st)
  have co: "code_seen V e = JString m"
    using assms(2-4) by (simp add: code_seen_def seen_def)
  have lt: "js_lt E (status_of e) (Finite 500) = Inr True"
    by (simp add: st js_lt_number)
  from assms(6) lt obtain s where l: "fst (logging E e) = [LogWarn e s]"
    by (auto simp: logging_def split: sum.splits)
  have r: "respond E V e =
      ([ResStatus (JNumber (Finite 401)),
        ResJson (JObject [(str ''code'', JString m),
                          (str ''status'', JNumber (Finite 401)),
                          (str ''context'', context_seen V e)])], None)"
    using assms(7,8) by (simp add: respond_def ss body_seen_def co)
  show ?thesis
    using handler_logging_returns [OF assms(5,6)] by (simp add: l r)
qed

text \<open>
  C2 (amended). For every failure (plain data, any value but null and undefined) on which
  the logging step returns and whose status and body the response accepts, the interceptor
  sets the response status to the computed status and sends the body
  \<open>{code, status, context}\<close>, where status is the declared HTTP status if present and 500
  otherwise, code is the declared name when it is specific, else the message text, else
  \<^verbatim>\<open>unspecified-error\<close>, and context is the declared structured detail if present and an
  empty object otherwise; an object among the three is sent as the logging step left it.
\<close>

theorem normalized_response:
  assumes "\<not> nullish error" and "snd (logging E error) = Inr V"
    and "response_status E (status_as_specified V error) = None"
    and "response_json E (status_as_specified V error) (body_as_specified V error) = None"
  shows "\<exists>l. is_log l \<and>
           ErrorHandler_error E error =
             ([l,
               ResStatus (status_as_specified V error),
               ResJson (JObject [(str ''code'', code_as_specified V error),
                                 (str ''status'', status_as_specified V error),
                                 (str ''context'', context_as_specified V error)])], None)"
  using handler_completes [OF assms(1,2)] assms(3,4)
  by (simp add: body_as_specified_eq status_as_specified_eq code_as_specified_eq
      context_as_specified_eq body_seen_def)

theorem normalized_response_witness:
  "\<not> nullish not_found
   \<and> snd (logging quiet not_found) = Inr as_read
   \<and> status_as_specified as_read not_found = JNumber (Finite 404)
   \<and> code_as_specified as_read not_found = JString (str ''NotFoundError'')
   \<and> context_as_specified as_read not_found = JObject [(str ''id'', JNumber (Finite 7))]
   \<and> response_status quiet (status_as_specified as_read not_found) = None
   \<and> response_json quiet (status_as_specified as_read not_found)
        (body_as_specified as_read not_found) = None
   \<and> (\<exists>l. is_log l \<and>
        ErrorHandler_error quiet not_found =
          ([l,
            ResStatus (JNumber (Finite 404)),
            ResJson (JObject [(str ''code'', JString (str ''NotFoundError'')),
                              (str ''status'', JNumber (Finite 404)),
                              (str ''context'', JObject [(str ''id'', JNumber (Finite 7))])])],
           None))"
proof -
  have l: "snd (logging quiet not_found) = Inr as_read"
    by (simp add: logging_quiet_warn status_of_not_found js_lt_number)
  have v: "status_as_specified as_read not_found = JNumber (Finite 404)"
    "code_as_specified as_read not_found = JString (str ''NotFoundError'')"
    "context_as_specified as_read not_found = JObject [(str ''id'', JNumber (Finite 7))]"
    by (simp_all add: status_as_specified_eq code_as_specified_eq context_as_specified_eq
        status_seen_as_read code_seen_as_read context_seen_as_read status_of_not_found
        code_of_not_found context_of_not_found)
  have r: "response_status quiet (status_as_specified as_read not_found) = None"
    "response_json quiet (status_as_specified as_read not_found)
        (body_as_specified as_read not_found) = None"
    by (simp_all add: v node_accepts) (simp_all add: quiet_def node_accepts)
  show ?thesis
    using normalized_response [OF not_nullish_examples(1) l r] l r
    by (simp add: v not_nullish_examples)
qed

theorem normalized_response_counterexample:
  "ErrorHandler_error stringify_fails not_found = ([], Some TypeError)
   \<and> ErrorHandler_error quiet odd_status =
       ([LogWarn odd_status (JString []),
         ResStatus (JNumber (Finite 42)),
         ResJson (JObject [(str ''code'', JString (str ''unspecified-error'')),
                           (str ''status'', JNumber (Finite 42)),
                           (str ''context'', JObject [])])], Some RangeError)
   \<and> get_prop not_found (str ''context'') = JObject [(str ''id'', JNumber (Finite 7))]
   \<and> ErrorHandler_error redacting not_found =
       ([LogWarn not_found (JString []),
         ResStatus (JNumber (Finite 404)),
         ResJson (JObject [(str ''code'', JString (str ''NotFoundError'')),
                           (str ''status'', JNumber (Finite 404)),
                           (str ''context'', JObject [])])], None)"
  by (simp add: handler_stringify_fails_not_found handler_quiet_odd_status
      handler_redacting_not_found)
    (simp add: not_found_def lookup_def str_def)

text \<open>
  C3 (amended). On a failure that is plain data, the interceptor completes, having passed
  a status and a body to the response, exactly when the failure is neither null nor
  undefined, the logging step (the comparison of the status with 500, \<^verbatim>\<open>JSON.stringify\<close>
  in the warning branch, the logger call) returns and both response calls return; in
  every other case an exception leaves it. For a failure that carries no properties (a
  boolean, a number, a string, an array) the status is 500 and the body has code
  \<^verbatim>\<open>unspecified-error\<close> and an empty context.
\<close>

theorem interceptor_completion:
  "(snd (ErrorHandler_error E error) = None \<longleftrightarrow>
      \<not> nullish error
      \<and> (\<exists>V. snd (logging E error) = Inr V
             \<and> response_status E (status_seen V error) = None
             \<and> response_json E (status_seen V error) (body_seen V error) = None))
   \<and> (snd (ErrorHandler_error E error) = None \<longrightarrow>
        (\<exists>l V. is_log l \<and> snd (logging E error) = Inr V
           \<and> fst (ErrorHandler_error E error) =
               [l, ResStatus (status_seen V error), ResJson (body_seen V error)]))
   \<and> (\<not> nullish error \<and> (\<forall>ps. error \<noteq> JObject ps) \<longrightarrow>
        status_seen V error = JNumber (Finite 500)
        \<and> body_seen V error =
            JObject [(str ''code'', JString (str ''unspecified-error'')),
                     (str ''status'', JNumber (Finite 500)),
                     (str ''context'', JObject [])])"
proof (intro conjI impI)
  show iff: "snd (ErrorHandler_error E error) = None \<longleftrightarrow>
      \<not> nullish error
      \<and> (\<exists>V. snd (logging E error) = Inr V
             \<and> response_status E (status_seen V error) = None
             \<and> response_json E (status_seen V error) (body_seen V error) = None)"
  proof (cases "nullish error")
    case True
    then show ?thesis by (simp add: handler_nullish)
  next
    case False
    show ?thesis
    proof (cases "snd (logging E error)")
      case (Inl e)
      then show ?thesis
        using False by (simp add: handler_logging_throws)
    next
      case (Inr V)
      then show ?thesis
        using False by (simp add: handler_logging_returns respond_returns_iff)
    qed
  qed
  assume "snd (ErrorHandler_error E error) = None"
  with iff obtain V where n: "\<not> nullish error" and l: "snd (logging E error) = Inr V"
    and r: "response_status E (status_seen V error) = None"
      "response_json E (status_seen V error) (body_seen V error) = None"
    by blast
  from handler_completes [OF n l r]
  show "\<exists>l V. is_log l \<and> snd (logging E error) = Inr V
           \<and> fst (ErrorHandler_error E error) =
               [l, ResStatus (status_seen V error), ResJson (body_seen V error)]"
    using l by auto
next
  assume "\<not> nullish error \<and> (\<forall>ps. error \<noteq> JObject ps)"
  then have g: "\<And>k. get_prop error k = JUndefined"
    by (cases error) auto
  show "status_seen V error = JNumber (Finite 500)"
    by (simp add: status_seen_def g)
  show "body_seen V error =
            JObject [(str ''code'', JString (str ''unspecified-error'')),
                     (str ''status'', JNumber (Finite 500)),
                     (str ''context'', JObject [])]"
    by (simp add: body_seen_def status_seen_def code_seen_def context_seen_def g)
qed

theorem interceptor_completion_witness:
  "\<not> nullish (JString (str ''oops''))
   \<and> snd (logging quiet (JString (str ''oops''))) = Inr as_read
   \<and> response_status quiet (status_seen as_read (JString (str ''oops''))) = None
   \<and> response_json quiet (status_seen as_read (JString (str ''oops'')))
        (body_seen as_read (JString (str ''oops''))) = None
   \<and> snd (ErrorHandler_error quiet (JString (str ''oops''))) = None
   \<and> (\<exists>l. is_log l \<and>
        fst (ErrorHandler_error quiet (JString (str ''oops''))) =
          [l,
           ResStatus (JNumber (Finite 500)),
           ResJson (JObject [(str ''code'', JString (str ''unspecified-error'')),
                             (str ''status'', JNumber (Finite 500)),
                             (str ''context'', JObject [])])])"
proof -
  let ?v = "JString (str ''oops'')"
  note ic = interceptor_completion [of quiet ?v as_read]
  have nn: "\<not> nullish ?v" and no: "\<forall>ps. ?v \<noteq> JObject ps"
    by simp_all
  from ic nn no have s: "status_seen as_read ?v = JNumber (Finite 500)"
    and b: "body_seen as_read ?v =
            JObject [(str ''code'', JString (str ''unspecified-error'')),
                     (str ''status'', JNumber (Finite 500)),
                     (str ''context'', JObject [])]"
    by blast+
  have "status_of ?v = JNumber (Finite 500)"
    using s by (simp add: status_seen_as_read)
  then have l: "snd (logging quiet ?v) = Inr as_read"
    by (simp add: logging_quiet_error js_lt_number)
  have r: "response_status quiet (status_seen as_read ?v) = None"
    "response_json quiet (status_seen as_read ?v) (body_seen as_read ?v) = None"
    by (simp_all add: s) (simp_all add: quiet_def node_accepts)
  from ic nn l r have fin: "snd (ErrorHandler_error quiet ?v) = None"
    by blast
  with ic obtain l' V where l': "is_log l'" and V: "snd (logging quiet ?v) = Inr V"
    and t: "fst (ErrorHandler_error quiet ?v) =
      [l', ResStatus (status_seen V ?v), ResJson (body_seen V ?v)]"
    by blast
  from V l have "V = as_read" by simp
  with t l' s b have "\<exists>l. is_log l \<and>
        fst (ErrorHandler_error quiet ?v) =
          [l,
           ResStatus (JNumber (Finite 500)),
           ResJson (JObject [(str ''code'', JString (str ''unspecified-error'')),
                             (str ''status'', JNumber (Finite 500)),
                             (str ''context'', JObject [])])]"
    by auto
  with nn l r fin show ?thesis by simp
qed

theorem interceptor_completion_counterexample:
  "ErrorHandler_error quiet JNull = ([], Some TypeError)
   \<and> ErrorHandler_error quiet JUndefined = ([], Some TypeError)
   \<and> ErrorHandler_error no_primitive opaque_status = ([], Some TypeError)
   \<and> ErrorHandler_error stringify_fails not_found = ([], Some TypeError)
   \<and> ErrorHandler_error log_down plain_error =
       ([LogError plain_error], Some (Foreign (JString (str ''log down''))))
   \<and> ErrorHandler_error quiet odd_status =
       ([LogWarn odd_status (JString []),
         ResStatus (JNumber (Finite 42)),
         ResJson (JObject [(str ''code'', JString (str ''unspecified-error'')),
                           (str ''status'', JNumber (Finite 42)),
                           (str ''context'', JObject [])])], Some RangeError)"
  by (simp add: handler_nullish handler_stringify_fails_not_found handler_log_down_plain
      handler_quiet_odd_status handler_no_primitive_opaque)

text \<open>
  C7 (amended). For every failure (plain data) other than null and undefined the
  interceptor makes at most one logger call: a call at warning severity exactly when the
  computed status is strictly less than 500 (in JavaScript's comparison) and
  \<^verbatim>\<open>JSON.stringify\<close> of the failure returns, and a call at error severity exactly when the comparison returns false, which
  covers every status of 500 or greater and the failures with no declared status, whose
  status defaults to 500. When \<^verbatim>\<open>JSON.stringify\<close> throws on a failure with a status below
  500, or the comparison itself throws, nothing is logged.
\<close>

theorem log_severity:
  "severities (fst (ErrorHandler_error E error)) =
     (if nullish error then []
      else
        (case js_lt E (status_of error) (Finite 500) of
           Inl e \<Rightarrow> []
         | Inr below \<Rightarrow>
             if below
             then (case JSON_stringify E error of Inl e \<Rightarrow> [] | Inr s \<Rightarrow> [Warning])
             else [Severe]))
   \<and> (\<not> nullish error \<and> ToNumber E (status_of error) = Inr n \<and> num_ge n (Finite 500) \<longrightarrow>
        severities (fst (ErrorHandler_error E error)) = [Severe])
   \<and> (\<not> nullish error \<and> status_of error = JNumber (Finite q) \<longrightarrow>
        severities (fst (ErrorHandler_error E error)) =
          (if 500 \<le> q then [Severe]
           else (case JSON_stringify E error of Inl e \<Rightarrow> [] | Inr s \<Rightarrow> [Warning])))
   \<and> (\<not> nullish error \<and> \<not> truthy (get_prop error (str ''status''))
        \<and> \<not> truthy (get_prop error (str ''httpCode'')) \<longrightarrow>
        status_of error = JNumber (Finite 500)
        \<and> severities (fst (ErrorHandler_error E error)) = [Severe])"
proof -
  have main: "severities (fst (ErrorHandler_error E error)) =
     (if nullish error then []
      else
        (case js_lt E (status_of error) (Finite 500) of
           Inl e \<Rightarrow> []
         | Inr below \<Rightarrow>
             if below
             then (case JSON_stringify E error of Inl e \<Rightarrow> [] | Inr s \<Rightarrow> [Warning])
             else [Severe]))"
  proof (cases "nullish error")
    case True
    then show ?thesis by (simp add: handler_nullish severities_def List.map_filter_simps)
  next
    case False
    then show ?thesis by (simp add: handler_severities severities_logging)
  qed
  have ge: "\<not> nullish error \<and> ToNumber E (status_of error) = Inr n \<and> num_ge n (Finite 500) \<longrightarrow>
        severities (fst (ErrorHandler_error E error)) = [Severe]"
    using num_ge_not_lt [of n "Finite 500"]
    by (auto simp: main js_lt_def)
  have num: "\<not> nullish error \<and> status_of error = JNumber (Finite q) \<longrightarrow>
        severities (fst (ErrorHandler_error E error)) =
          (if 500 \<le> q then [Severe]
           else (case JSON_stringify E error of Inl e \<Rightarrow> [] | Inr s \<Rightarrow> [Warning]))"
    by (auto simp: main js_lt_number)
  have und: "\<not> nullish error \<and> \<not> truthy (get_prop error (str ''status''))
        \<and> \<not> truthy (get_prop error (str ''httpCode'')) \<longrightarrow>
        status_of error = JNumber (Finite 500)
        \<and> severities (fst (ErrorHandler_error E error)) = [Severe]"
    by (simp add: main status_of_def js_or_def js_lt_number)
  from main ge num und show ?thesis by blast
qed

theorem log_severity_witness:
  "\<not> nullish not_found
   \<and> status_of not_found = JNumber (Finite 404)
   \<and> JSON_stringify quiet not_found = Inr (JString [])
   \<and> severities (fst (ErrorHandler_error quiet not_found)) = [Warning]
   \<and> \<not> nullish plain_error
   \<and> \<not> truthy (get_prop plain_error (str ''status''))
   \<and> \<not> truthy (get_prop plain_error (str ''httpCode''))
   \<and> status_of plain_error = JNumber (Finite 500)
   \<and> ToNumber quiet (status_of plain_error) = Inr (Finite 500)
   \<and> num_ge (Finite 500) (Finite 500)
   \<and> severities (fst (ErrorHandler_error quiet plain_error)) = [Severe]"
proof -
  have s: "JSON_stringify quiet not_found = Inr (JString [])"
    by (simp add: quiet_def)
  have u: "\<not> truthy (get_prop plain_error (str ''status''))"
    "\<not> truthy (get_prop plain_error (str ''httpCode''))"
    by (simp_all add: plain_error_def lookup_def str_def)
  have "severities (fst (ErrorHandler_error quiet not_found)) = [Warning]"
    using log_severity [of quiet not_found _ 404]
    by (simp add: not_nullish_examples status_of_not_found s js_lt_number)
  moreover have "status_of plain_error = JNumber (Finite 500)
      \<and> severities (fst (ErrorHandler_error quiet plain_error)) = [Severe]"
    using log_severity [of quiet plain_error _ 500] u not_nullish_examples(2) by blast
  moreover have "ToNumber quiet (status_of plain_error) = Inr (Finite 500)"
    by (simp add: status_of_plain_error ToNumber_def)
  ultimately show ?thesis
    using s u by (simp add: not_nullish_examples status_of_not_found)
qed

theorem log_severity_counterexample:
  "status_of not_found = JNumber (Finite 404)
   \<and> js_lt stringify_fails (status_of not_found) (Finite 500) = Inr True
   \<and> ErrorHandler_error stringify_fails not_found = ([], Some TypeError)
   \<and> severities (fst (ErrorHandler_error stringify_fails not_found)) = []"
  by (simp add: status_of_not_found js_lt_number handler_stringify_fails_not_found
      severities_def List.map_filter_simps)






section \<open>The routing-controller options: properties\<close>

lemma configure_forced:
  "configure opts ''interceptors'' = Some (RInterceptors [SessionLoaderInterceptor, ErrorHandler])"
  "configure opts ''authorizationChecker'' = Some (RChecker authorizationChecker)"
  "configure opts ''validation'' = Some forced_validation"
  by (simp_all add: configure_def forced_validation_def Let_def)

lemma configure_other:
  "f \<noteq> ''interceptors'' \<Longrightarrow> f \<noteq> ''authorizationChecker'' \<Longrightarrow> f \<noteq> ''validation'' \<Longrightarrow>
     configure opts f =
       (case routingController_of opts of
          None \<Rightarrow> defaultRoutingControllerOptions opts f
        | Some rc \<Rightarrow>
            (case rc f of
               Some v \<Rightarrow> Some v
             | None \<Rightarrow> defaultRoutingControllerOptions opts f))"
  by (simp add: configure_def Object_assign_def Let_def map_add_def split: option.splits)

lemma routingController_of_caller: "routingController_of caller_options = Some caller_rc"
  by (simp add: routingController_of_def caller_options_def)

lemma hook_of_caller: "hook_of caller_options = None"
  by (simp add: hook_of_def caller_options_def)

text \<open>
  C9 (amended). For every options object, the configuration assembled by lines 77 to 97
  has \<^verbatim>\<open>interceptors\<close> equal to \<open>[SessionLoaderInterceptor, ErrorHandler]\<close>,
  \<^verbatim>\<open>authorizationChecker\<close> equal to the session gate and \<^verbatim>\<open>validation\<close> equal to
  \<open>{whitelist: true, forbidNonWhitelisted: true}\<close>, whatever the caller supplied for these
  three fields in \<^verbatim>\<open>options.http.routingController\<close>; every other field has the caller's
  value when the caller supplied one and the default otherwise. It is the configuration
  used when the caller gives no \<^verbatim>\<open>beforeRoutingControllerLaunchHook\<close>.
\<close>

theorem configure_fields:
  "configure opts ''interceptors'' = Some (RInterceptors [SessionLoaderInterceptor, ErrorHandler])
   \<and> configure opts ''authorizationChecker'' = Some (RChecker authorizationChecker)
   \<and> configure opts ''validation'' = Some forced_validation
   \<and> (f \<noteq> ''interceptors'' \<and> f \<noteq> ''authorizationChecker'' \<and> f \<noteq> ''validation'' \<longrightarrow>
        (routingController_of opts = Some rc \<and> rc f = Some v \<longrightarrow> configure opts f = Some v)
        \<and> (routingController_of opts = Some rc \<and> rc f = None \<longrightarrow>
             configure opts f = defaultRoutingControllerOptions opts f)
        \<and> (routingController_of opts = None \<longrightarrow>
             configure opts f = defaultRoutingControllerOptions opts f))
   \<and> (hook_of opts = None \<longrightarrow> configuration_used opts = configure opts)"
  using configure_other [of f opts]
  by (auto simp: configure_forced configuration_used_def)

theorem configure_fields_witness:
  "routingController_of caller_options = Some caller_rc
   \<and> caller_rc ''interceptors'' = Some (RInterceptors [CustomMiddleware 1])
   \<and> configure caller_options ''interceptors''
       = Some (RInterceptors [SessionLoaderInterceptor, ErrorHandler])
   \<and> caller_rc ''authorizationChecker'' = Some (RChecker allow_all)
   \<and> configure caller_options ''authorizationChecker'' = Some (RChecker authorizationChecker)
   \<and> configure caller_options ''validation'' = Some forced_validation
   \<and> ''defaultErrorHandler'' \<noteq> ''interceptors''
   \<and> ''defaultErrorHandler'' \<noteq> ''authorizationChecker''
   \<and> ''defaultErrorHandler'' \<noteq> ''validation''
   \<and> caller_rc ''defaultErrorHandler'' = Some (RValue (JBool True))
   \<and> configure caller_options ''defaultErrorHandler'' = Some (RValue (JBool True))
   \<and> caller_rc ''controllers'' = None
   \<and> configure caller_options ''controllers''
       = Some (RValue (JArray [JString (str ''/srv/app/**/*.controller.*s'')]))
   \<and> hook_of caller_options = None
   \<and> configuration_used caller_options = configure caller_options"
proof -
  have c: "caller_rc ''defaultErrorHandler'' = Some (RValue (JBool True))"
    "caller_rc ''controllers'' = None"
    "caller_rc ''interceptors'' = Some (RInterceptors [CustomMiddleware 1])"
    "caller_rc ''authorizationChecker'' = Some (RChecker allow_all)"
    by (simp_all add: caller_rc_def)
  have d: "defaultRoutingControllerOptions caller_options ''controllers''
       = Some (RValue (JArray [JString (str ''/srv/app/**/*.controller.*s'')]))"
    by (simp add: defaultRoutingControllerOptions_def caller_options_def)
  have "configure caller_options ''defaultErrorHandler'' = Some (RValue (JBool True))"
    using configure_fields
      [of caller_options "''defaultErrorHandler''" caller_rc "RValue (JBool True)"]
      routingController_of_caller c
    by simp
  moreover have "configure caller_options ''controllers''
       = Some (RValue (JArray [JString (str ''/srv/app/**/*.controller.*s'')]))"
    using configure_fields [of caller_options "''controllers''" caller_rc "RValue JNull"]
      routingController_of_caller c d
    by simp
  moreover have "configure caller_options ''interceptors''
       = Some (RInterceptors [SessionLoaderInterceptor, ErrorHandler])"
    "configure caller_options ''authorizationChecker'' = Some (RChecker authorizationChecker)"
    "configure caller_options ''validation'' = Some forced_validation"
    using configure_fields [of caller_options "''validation''" caller_rc "RValue JNull"]
    by simp_all
  moreover have "configuration_used caller_options = configure caller_options"
    using configure_fields [of caller_options "''validation''" caller_rc "RValue JNull"]
      hook_of_caller
    by simp
  ultimately show ?thesis
    using routingController_of_caller hook_of_caller c by simp
qed

theorem configure_fields_counterexample:
  "routingController_of caller_options = Some caller_rc
   \<and> caller_rc ''validation'' = Some (RValue (JObject [(str ''whitelist'', JBool False)]))
   \<and> configure caller_options ''validation''
       = Some (RValue (JObject [(str ''whitelist'', JBool True),
                                (str ''forbidNonWhitelisted'', JBool True)]))
   \<and> configure caller_options ''validation'' \<noteq> caller_rc ''validation''
   \<and> configuration_used caller_options ''validation'' \<noteq> caller_rc ''validation''
   \<and> configuration_used hooked_options ''interceptors''
       = Some (RInterceptors [CustomMiddleware 1])"
proof -
  have u: "configuration_used caller_options = configure caller_options"
    by (simp add: configuration_used_def hook_of_caller)
  have h: "configuration_used hooked_options ''interceptors''
       = Some (RInterceptors [CustomMiddleware 1])"
    by (simp add: configuration_used_def hook_of_def hooked_options_def)
  show ?thesis
    by (simp add: u h routingController_of_caller caller_rc_def configure_forced
        forced_validation_def)
qed

end
